theory Spec2Isabelle
  imports Complex_Main "HOL-Library.Sublist" "HOL-Library.Log_Nat"
    "HOL-Library.Code_Target_Numeral"
begin

section \<open>Python values\<close>

text \<open>
  A Python \<open>str\<close> is a sequence of Unicode code points and \<open>len\<close> counts code points,
  so a string is a list of code-point numbers. \<open>lit\<close> turns an ASCII literal of the
  source into that representation.
\<close>

type_synonym pystr = "nat list"

definition lit :: "string \<Rightarrow> pystr" where
  "lit s = map of_char s"

text \<open>The code points for which \<open>str.isspace\<close> holds; \<open>str.strip()\<close> removes them at both ends.\<close>

definition py_isspace :: "nat \<Rightarrow> bool" where
  "py_isspace c \<longleftrightarrow>
     (9 \<le> c \<and> c \<le> 13) \<or> (28 \<le> c \<and> c \<le> 32) \<or> c = 133 \<or> c = 160 \<or> c = 5760 \<or>
     (8192 \<le> c \<and> c \<le> 8202) \<or> c = 8232 \<or> c = 8233 \<or> c = 8239 \<or> c = 8287 \<or> c = 12288"

definition strip :: "pystr \<Rightarrow> pystr" where
  "strip s = rev (dropWhile py_isspace (rev (dropWhile py_isspace s)))"

text \<open>
  \<open>str.lower()\<close> on the ASCII letters. Code points outside ASCII are left as they are:
  none of them lower-cases into a run of the letters that the rate-limit marker is
  made of, so the containment test below is not affected.
\<close>

definition lower :: "pystr \<Rightarrow> pystr" where
  "lower s = map (\<lambda>c. if 65 \<le> c \<and> c \<le> 90 then c + 32 else c) s"

text \<open>
  The values the code handles: JSON values of a draft, and the objects the ledger SDK
  decodes a response into. The code looks at an SDK object only through
  \<open>hasattr(x, 'value')\<close> / \<open>x.value\<close>, \<open>hasattr(x, 'fields') and isinstance(x.fields, dict)\<close>,
  \<open>hasattr(x, 'rawValue')\<close>, its truth value and \<open>str(x)\<close>; \<open>PObj\<close> records exactly these.
  \<open>attr_value = Some PNone\<close> is an attribute \<open>value\<close> that holds \<open>None\<close>. Such an object
  has no conversion to a number: \<open>int\<close> and \<open>float\<close> of it raise \<open>TypeError\<close>. A list
  is such an object without attributes.
  A dictionary is an association list read by \<open>map_of\<close>. Floats are finite binary64
  numbers, held as the rational they denote (infinities and NaN are not modelled).
\<close>

datatype pyval =
    PNone
  | PBool bool
  | PInt int
  | PFloat rat
  | PStr pystr
  | PDict "(string \<times> pyval) list"
  | PObj (attr_value: "pyval option") (attr_fields: "(string \<times> pyval) list option")
         (has_rawValue: bool) (obj_truth: bool) (obj_str: pystr)

datatype pyerror = TypeError | ValueError | OverflowError | AttributeError | KeyError

text \<open>An exception is one that a conversion of the code raises, or one that comes from
  the network, the SDK or the summarizer, with the text that \<open>str(e)\<close> gives.\<close>

datatype exn = Py pyerror | Env pystr

text \<open>
  The library functions whose results the code uses but that are not modelled further:
  parsing a string as a float or as an integer (\<open>None\<close> is \<open>ValueError\<close>), and the text of
  a number, a dictionary or any other value without a case of its own in \<open>py_str\<close>.
\<close>

record pylib =
  float_of_str :: "pystr \<Rightarrow> rat option"
  int_of_str :: "pystr \<Rightarrow> int option"
  repr :: "pyval \<Rightarrow> pystr"

text \<open>A library for examples: no string parses as a number, every number prints as \<open>0\<close>.\<close>

definition example_pylib :: pylib where
  "example_pylib = \<lparr>float_of_str = (\<lambda>s. None), int_of_str = (\<lambda>s. None), repr = (\<lambda>v. lit ''0'')\<rparr>"

definition ebind :: "'e + 'a \<Rightarrow> ('a \<Rightarrow> 'e + 'b) \<Rightarrow> 'e + 'b" where
  "ebind m f = (case m of Inl e \<Rightarrow> Inl e | Inr x \<Rightarrow> f x)"

fun truthy :: "pyval \<Rightarrow> bool" where
  "truthy PNone = False"
| "truthy (PBool b) = b"
| "truthy (PInt n) = (n \<noteq> 0)"
| "truthy (PFloat x) = (x \<noteq> 0)"
| "truthy (PStr s) = (s \<noteq> [])"
| "truthy (PDict d) = (d \<noteq> [])"
| "truthy (PObj v f r t s) = t"

text \<open>\<open>hasattr(x, 'value')\<close> with \<open>x.value\<close>, and \<open>x.fields\<close> when it is a dictionary.\<close>

fun value_attr :: "pyval \<Rightarrow> pyval option" where
  "value_attr (PObj v f r t s) = v"
| "value_attr x = None"

fun fields_attr :: "pyval \<Rightarrow> (string \<times> pyval) list option" where
  "fields_attr (PObj v f r t s) = f"
| "fields_attr x = None"

fun rawValue_attr :: "pyval \<Rightarrow> bool" where
  "rawValue_attr (PObj v f r t s) = r"
| "rawValue_attr x = False"

text \<open>\<open>result.value if hasattr(result, 'value') else result\<close>\<close>

definition proposal_struct_of :: "pyval \<Rightarrow> pyval" where
  "proposal_struct_of result = (case value_attr result of Some v \<Rightarrow> v | None \<Rightarrow> result)"

text \<open>\<open>d.get(key, default)\<close>: the default only when the key is missing.\<close>

definition dict_get :: "(string \<times> pyval) list \<Rightarrow> string \<Rightarrow> pyval \<Rightarrow> pyval" where
  "dict_get d k dflt = (case map_of d k of None \<Rightarrow> dflt | Some v \<Rightarrow> v)"

text \<open>\<open>x.get(key, default)\<close> on a value that need not be a dictionary.\<close>

fun py_get :: "pyval \<Rightarrow> string \<Rightarrow> pyval \<Rightarrow> pyerror + pyval" where
  "py_get (PDict d) k dflt = Inr (dict_get d k dflt)"
| "py_get x k dflt = Inl AttributeError"

text \<open>\<open>x or ''\<close>\<close>

definition or_empty :: "pyval \<Rightarrow> pyval" where
  "or_empty x = (if truthy x then x else PStr [])"

fun py_str :: "pylib \<Rightarrow> pyval \<Rightarrow> pystr" where
  "py_str L PNone = lit ''None''"
| "py_str L (PBool b) = (if b then lit ''True'' else lit ''False'')"
| "py_str L (PStr s) = s"
| "py_str L (PObj v f r t s) = s"
| "py_str L x = repr L x"

section \<open>Binary64 arithmetic\<close>

text \<open>
  Python's \<open>float\<close> is IEEE 754 binary64 and every operation rounds its exact result to
  the nearest representable number, ties to even. \<open>fl\<close> is that rounding on the rationals:
  the exponent \<open>e\<close> makes \<open>\<bar>x\<bar> / 2^e\<close> lie in \<open>[2^52, 2^53)\<close> (not below \<open>- 1074\<close>, where the
  subnormal numbers begin) and the quotient is rounded to an integer. Overflow to
  infinity is not modelled.
\<close>

definition rne :: "rat \<Rightarrow> int" where
  "rne q = (let f = \<lfloor>q\<rfloor>; d = q - of_int f
            in if d < 1 / 2 then f else if 1 / 2 < d then f + 1
               else if even f then f else f + 1)"

definition ilog2 :: "rat \<Rightarrow> int" where
  "ilog2 x = (if 1 \<le> x then int (floorlog 2 (nat \<lfloor>x\<rfloor>)) - 1
              else - int (floorlog 2 (nat (\<lceil>1 / x\<rceil> - 1))))"

definition pow2 :: "int \<Rightarrow> rat" where
  "pow2 e = (if 0 \<le> e then 2 ^ nat e else 1 / 2 ^ nat (- e))"

definition fl :: "rat \<Rightarrow> rat" where
  "fl x = (if x = 0 then 0
           else let e = max (ilog2 \<bar>x\<bar> - 52) (- 1074)
                in sgn x * of_int (rne (\<bar>x\<bar> / pow2 e)) * pow2 e)"

definition fadd :: "rat \<Rightarrow> rat \<Rightarrow> rat" where "fadd a b = fl (a + b)"
definition fsub :: "rat \<Rightarrow> rat \<Rightarrow> rat" where "fsub a b = fl (a - b)"
definition fmul :: "rat \<Rightarrow> rat \<Rightarrow> rat" where "fmul a b = fl (a * b)"
definition fdiv :: "rat \<Rightarrow> rat \<Rightarrow> rat" where "fdiv a b = fl (a / b)"

text \<open>\<open>int(x)\<close> of a float truncates towards zero.\<close>

definition py_trunc :: "rat \<Rightarrow> int" where
  "py_trunc r = (if 0 \<le> r then \<lfloor>r\<rfloor> else \<lceil>r\<rceil>)"

text \<open>\<open>int(x)\<close> and \<open>float(x)\<close>. An integer that rounds to \<open>2^1024\<close> is too large for a float.\<close>

fun py_int :: "pylib \<Rightarrow> pyval \<Rightarrow> pyerror + int" where
  "py_int L (PBool b) = Inr (if b then 1 else 0)"
| "py_int L (PInt n) = Inr n"
| "py_int L (PFloat x) = Inr (py_trunc x)"
| "py_int L (PStr s) = (case int_of_str L s of None \<Rightarrow> Inl ValueError | Some n \<Rightarrow> Inr n)"
| "py_int L x = Inl TypeError"

fun py_float :: "pylib \<Rightarrow> pyval \<Rightarrow> pyerror + rat" where
  "py_float L (PBool b) = Inr (if b then 1 else 0)"
| "py_float L (PInt n) =
     (if 2 ^ 1024 - 2 ^ 970 \<le> \<bar>n\<bar> then Inl OverflowError else Inr (fl (of_int n)))"
| "py_float L (PFloat x) = Inr x"
| "py_float L (PStr s) = (case float_of_str L s of None \<Rightarrow> Inl ValueError | Some x \<Rightarrow> Inr x)"
| "py_float L x = Inl TypeError"

section \<open>Fixed-point codec\<close>

text \<open>
  The argument of \<open>cadence.UFix64(int(x * 1e8))\<close> in \<open>create_proposal_on_blockchain\<close>, and
  the helpers \<open>ufix64_to_float\<close> and \<open>uint64_to_int\<close> of \<open>_parse_proposal_result\<close>.
\<close>

definition to_ufix64 :: "rat \<Rightarrow> int" where
  "to_ufix64 x = py_trunc (fmul x 100000000)"

definition ufix64_to_float :: "pylib \<Rightarrow> pyval \<Rightarrow> pyerror + rat" where
  "ufix64_to_float L v =
     (if v = PNone then Inr 0
      else ebind (py_float L v) (\<lambda>x. Inr (fdiv x 100000000)))"

definition uint64_to_int :: "pylib \<Rightarrow> pyval \<Rightarrow> pyerror + int" where
  "uint64_to_int L v = (if v = PNone then Inr 0 else py_int L v)"

section \<open>Summary generation\<close>

text \<open>
  \<open>_generate_blockchain_summary\<close>. The first argument is what the \<open>try\<close> block around the
  summarizer call yields: \<open>Inr text\<close> for \<open>response.text\<close>, \<open>Inl e\<close> for any exception.
  A value inside an f-string is formatted as \<open>str\<close> formats it. The arrow of the fallback
  template is the single code point U+2192.
\<close>

definition filler :: pystr where
  "filler = lit '' Environmental impact assessment indicates significant changes.''"

definition ensure_length :: "pystr \<Rightarrow> pystr" where
  "ensure_length summary =
     (if length summary < 230 then summary @ filler
      else if length summary > 240 then take 240 summary
      else summary)"

definition fallback_summary :: "pylib \<Rightarrow> (string \<times> pyval) list \<Rightarrow> pystr" where
  "fallback_summary L analysis_data =
     (let park_name = dict_get analysis_data ''parkName'' (PStr (lit ''Park''));
          ndvi_before = dict_get analysis_data ''ndviBefore'' (PInt 0);
          ndvi_after = dict_get analysis_data ''ndviAfter'' (PInt 0);
          pm25_increase = dict_get analysis_data ''pm25IncreasePercent'' (PInt 0)
      in py_str L park_name @ lit '': NDVI '' @ py_str L ndvi_before @ [8594]
         @ py_str L ndvi_after @ lit '', PM2.5 +'' @ py_str L pm25_increase @ lit ''%'')"

definition generate_blockchain_summary ::
  "pylib \<Rightarrow> exn + pystr \<Rightarrow> (string \<times> pyval) list \<Rightarrow> pystr" where
  "generate_blockchain_summary L response analysis_data =
     (case response of
        Inr text \<Rightarrow> ensure_length (strip text)
      | Inl e \<Rightarrow> fallback_summary L analysis_data)"

text \<open>A length is acceptable for on-chain storage when it lies in 230..240.\<close>

definition length_ok :: "pystr \<Rightarrow> bool" where
  "length_ok s \<longleftrightarrow> 230 \<le> length s \<and> length s \<le> 240"

section \<open>End-date normalisation\<close>

text \<open>
  Lines 112 to 134 of \<open>create_proposal_on_blockchain\<close>. The date library is a parameter:
  \<open>strptime\<close> with the format \<open>%B %d, %Y\<close> (\<open>None\<close> when it raises) and \<open>timestamp\<close> of a
  local date and time (\<open>None\<close> when it raises); \<open>fromtimestamp_ok\<close> says that
  \<open>datetime.fromtimestamp\<close> returns instead of raising. The clock is read twice:
  \<open>now0\<close> in the \<open>except\<close> branch, \<open>now\<close> for \<open>current_time\<close>.
\<close>

record datetime =
  year :: int
  month :: int
  day :: int
  hour :: int
  minute :: int
  second :: int

record datelib =
  strptime :: "pyval \<Rightarrow> datetime option"
  timestamp :: "datetime \<Rightarrow> rat option"
  fromtimestamp_ok :: "rat \<Rightarrow> bool"

definition parse_end_timestamp :: "datelib \<Rightarrow> pyval \<Rightarrow> rat option" where
  "parse_end_timestamp D end_date_str =
     (case strptime D end_date_str of
        None \<Rightarrow> None
      | Some parsed_date \<Rightarrow>
          (let end_of_day = parsed_date\<lparr>hour := 23, minute := 59, second := 59\<rparr>
           in timestamp D end_of_day))"

definition normalize_end_date :: "datelib \<Rightarrow> rat \<Rightarrow> rat \<Rightarrow> pyval \<Rightarrow> rat" where
  "normalize_end_date D now0 now end_date_str =
     (let end_timestamp = (case parse_end_timestamp D end_date_str of
                             Some t \<Rightarrow> t
                           | None \<Rightarrow> fadd now0 (30 * 24 * 3600));
          current_time = now;
          buffer_time = 3600
      in if end_timestamp \<le> fadd current_time buffer_time
         then fadd (fadd current_time (30 * 24 * 3600)) buffer_time
         else end_timestamp)"

text \<open>
  A reading of the clock between 2004 and 2038 is a binary64 number in \<open>[2^30, 2^31)\<close>,
  that is, a multiple of \<open>2^-22\<close> in that range.
\<close>

definition clock_reading :: "rat \<Rightarrow> bool" where
  "clock_reading t \<longleftrightarrow> 2 ^ 30 \<le> t \<and> t < 2 ^ 31 \<and> of_int \<lfloor>t * 2 ^ 22\<rfloor> = t * 2 ^ 22"

text \<open>A date library for examples: it parses one date, in a zone without offset.\<close>

definition example_datelib :: datelib where
  "example_datelib =
     \<lparr>strptime = (\<lambda>v. if v = PStr (lit ''March 5, 2027'')
                      then Some \<lparr>year = 2027, month = 3, day = 5, hour = 0, minute = 0, second = 0\<rparr>
                      else None),
      timestamp = (\<lambda>d. Some (of_int (1804204800 + hour d * 3600 + minute d * 60 + second d))),
      fromtimestamp_ok = (\<lambda>t. True)\<rparr>"

section \<open>Arguments of the create transaction\<close>

record environmental_args =
  arg_ndviBefore :: int
  arg_ndviAfter :: int
  arg_pm25Before :: int
  arg_pm25After :: int
  arg_pm25IncreasePercent :: int
  arg_vegetationLossPercent :: int

record demographic_args =
  arg_children :: int
  arg_adults :: int
  arg_seniors :: int
  arg_totalAffectedPopulation :: int

record tx_arguments =
  arg_parkName :: pyval
  arg_parkId :: pyval
  arg_description :: pystr
  arg_endDate :: int
  arg_environment :: environmental_args
  arg_demographics :: demographic_args

text \<open>Lines 137 to 142, with the encoding of lines 258 to 263.\<close>

definition environmental_arguments :: "pylib \<Rightarrow> pyval \<Rightarrow> pyerror + environmental_args" where
  "environmental_arguments L analysis_data =
     ebind (ebind (py_get analysis_data ''ndviBefore'' (PInt 0)) (py_float L)) (\<lambda>ndvi_before.
     ebind (ebind (py_get analysis_data ''ndviAfter'' (PInt 0)) (py_float L)) (\<lambda>ndvi_after.
     ebind (ebind (py_get analysis_data ''pm25Before'' (PInt 0)) (py_float L)) (\<lambda>pm25_before.
     ebind (ebind (py_get analysis_data ''pm25After'' (PInt 0)) (py_float L)) (\<lambda>pm25_after.
     ebind (ebind (py_get analysis_data ''pm25IncreasePercent'' (PInt 0)) (py_float L)) (\<lambda>pm25_increase.
     let vegetation_loss = (if ndvi_before \<noteq> 0 \<and> ndvi_after \<noteq> 0
                            then fmul (fsub ndvi_before ndvi_after) 100 else 0)
     in Inr \<lparr>arg_ndviBefore = to_ufix64 ndvi_before,
             arg_ndviAfter = to_ufix64 ndvi_after,
             arg_pm25Before = to_ufix64 pm25_before,
             arg_pm25After = to_ufix64 pm25_after,
             arg_pm25IncreasePercent = to_ufix64 pm25_increase,
             arg_vegetationLossPercent = to_ufix64 vegetation_loss\<rparr>)))))"

text \<open>Lines 145 to 149.\<close>

definition demographic_arguments :: "pylib \<Rightarrow> pyval \<Rightarrow> pyerror + demographic_args" where
  "demographic_arguments L analysis_data =
     ebind (py_get analysis_data ''demographics'' (PDict [])) (\<lambda>demographics.
     ebind (ebind (py_get demographics ''kids'' (PInt 0)) (py_int L)) (\<lambda>children.
     ebind (ebind (py_get demographics ''adults'' (PInt 0)) (py_int L)) (\<lambda>adults.
     ebind (ebind (py_get demographics ''seniors'' (PInt 0)) (py_int L)) (\<lambda>seniors.
     ebind (ebind (py_get analysis_data ''affectedPopulation10MinWalk'' (PInt 0)) (py_int L))
       (\<lambda>total_affected.
     Inr \<lparr>arg_children = children, arg_adults = adults, arg_seniors = seniors,
          arg_totalAffectedPopulation = total_affected\<rparr>)))))"


section \<open>Submission and the sealing poll\<close>

record tx_result_response =
  status :: int
  error_message :: pystr
  status_code :: int

datatype event =
    Sleep nat
  | GetTransactionResult
  | SendTransaction tx_arguments
  | ExecuteScript
  | CloseProposal int

text \<open>
  The dictionaries that \<open>create_proposal_on_blockchain\<close> returns:
  \<open>TransactionFailed error transaction_hash\<close>,
  \<open>Success transaction_hash proposal_id status_code explorer_url\<close>,
  \<open>TransactionTimeout error transaction_hash explorer_url\<close>; \<open>Raised e\<close> is the outer
  \<open>except\<close> with \<open>str(e)\<close>.
\<close>

datatype submission_result =
    NotConnected
  | NotConfigured
  | InsufficientBalance rat
  | Raised exn
  | TransactionFailed pystr pystr
  | Success pystr int int pystr
  | TransactionTimeout pystr pystr pystr

text \<open>
  What the ledger and the summarizer answer during one call. A script result is an
  exception, an empty result (\<open>Inr None\<close>) or the decoded value. \<open>get_account\<close> gives
  the balance in the smallest unit. \<open>get_latest_block\<close> stands for reading the latest
  block and the account's first key, \<open>build_transaction\<close> for encoding the arguments and
  signing (\<open>Some e\<close> when they raise); \<open>send_transaction\<close> gives an exception or the hex
  id of the transaction. \<open>get_transaction_result k\<close> is the answer to query number \<open>k\<close>,
  counted from 0.
\<close>

record chain =
  is_connected :: bool
  summarizer :: "exn + pystr"
  get_account :: "exn + int"
  get_latest_block :: "exn option"
  build_transaction :: "tx_arguments \<Rightarrow> exn option"
  send_transaction :: "tx_arguments \<Rightarrow> exn + pystr"
  get_transaction_result :: "nat \<Rightarrow> exn + tx_result_response"
  total_proposals_script :: "exn + pyval option"

record service =
  address :: pystr
  signer :: "pystr option"
  explorer_base_url :: pystr

text \<open>
  \<open>FlowBlockchainService.__init__\<close>: the signer is built only from a key that is set and
  not empty, and an exception of the SDK's constructor leaves it absent. \<open>sdk\<close> is the
  SDK's \<open>InMemorySigner\<close>, applied to the configured key.
\<close>

definition init_service ::
  "(pystr option \<Rightarrow> exn + pystr) \<Rightarrow> bool \<Rightarrow> pystr option \<Rightarrow> pystr \<Rightarrow> pystr \<Rightarrow> service" where
  "init_service sdk sdk_available private_key_hex addr explorer =
     \<lparr>address = addr,
      signer = (if private_key_hex \<noteq> None \<and> private_key_hex \<noteq> Some [] \<and> sdk_available
                then (case sdk private_key_hex of Inr s \<Rightarrow> Some s | Inl e \<Rightarrow> None)
                else None),
      explorer_base_url = explorer\<rparr>"

definition get_total_proposals :: "pylib \<Rightarrow> exn + pyval option \<Rightarrow> int" where
  "get_total_proposals L script =
     (case script of
        Inl e \<Rightarrow> 0
      | Inr None \<Rightarrow> 0
      | Inr (Some cadence_value) \<Rightarrow>
          (case py_int L (proposal_struct_of cadence_value) of
             Inl e \<Rightarrow> 0
           | Inr n \<Rightarrow> n))"

definition explorer_url_of :: "pystr \<Rightarrow> pystr \<Rightarrow> pystr" where
  "explorer_url_of base tx_id = base @ lit ''/transaction/'' @ tx_id"

text \<open>The \<open>while attempt < max_attempts\<close> loop of lines 286 to 321, entered with \<open>attempt\<close>.\<close>

function poll_for_seal ::
  "pylib \<Rightarrow> service \<Rightarrow> chain \<Rightarrow> pystr \<Rightarrow> nat \<Rightarrow> submission_result \<times> event list" where
  "poll_for_seal L svc c tx_id attempt =
     (if attempt < 30 then
        (case get_transaction_result c attempt of
           Inl e \<Rightarrow> (Raised e, [Sleep 2, GetTransactionResult])
         | Inr tx_result_response \<Rightarrow>
             if status tx_result_response \<ge> 4 then
               (if error_message tx_result_response \<noteq> [] then
                  (TransactionFailed
                     (lit ''Transaction failed: '' @ error_message tx_result_response) tx_id,
                   [Sleep 2, GetTransactionResult])
                else
                  (Success tx_id (get_total_proposals L (total_proposals_script c))
                     (status_code tx_result_response)
                     (explorer_url_of (explorer_base_url svc) tx_id),
                   [Sleep 2, GetTransactionResult]))
             else apsnd (\<lambda>ev. Sleep 2 # GetTransactionResult # ev)
                    (poll_for_seal L svc c tx_id (Suc attempt)))
      else (TransactionTimeout (lit ''Transaction timeout - please check explorer'') tx_id
              (explorer_url_of (explorer_base_url svc) tx_id), []))"
  by pat_completeness auto
termination
  by (relation "measure (\<lambda>(L, svc, c, tx_id, attempt). 30 - attempt)") auto





definition subscript :: "(string \<times> pyval) list \<Rightarrow> string \<Rightarrow> pyerror + pyval" where
  "subscript d k = (case map_of d k of None \<Rightarrow> Inl KeyError | Some v \<Rightarrow> Inr v)"

text \<open>What lines 109 to 155 compute before the ledger is contacted.\<close>

record prepared =
  prep_endDate :: int
  prep_environment :: environmental_args
  prep_demographics :: demographic_args
  prep_description :: pystr

definition prepare_arguments ::
  "pylib \<Rightarrow> datelib \<Rightarrow> chain \<Rightarrow> rat \<Rightarrow> rat \<Rightarrow> (string \<times> pyval) list \<Rightarrow> pyerror + prepared" where
  "prepare_arguments L D c now0 now proposal_data =
     ebind (subscript proposal_data ''analysisData'') (\<lambda>analysis_data.
     ebind (subscript proposal_data ''endDate'') (\<lambda>end_date_str.
     let end_timestamp = normalize_end_date D now0 now end_date_str in
     ebind (environmental_arguments L analysis_data) (\<lambda>env.
     ebind (demographic_arguments L analysis_data) (\<lambda>demo.
     ebind (subscript proposal_data ''proposalSummary'') (\<lambda>full_summary.
     ebind (case analysis_data of PDict ad \<Rightarrow> Inr ad | _ \<Rightarrow> Inl AttributeError) (\<lambda>ad.
     let description = generate_blockchain_summary L (summarizer c) ad in
     Inr \<lparr>prep_endDate = to_ufix64 end_timestamp, prep_environment = env,
          prep_demographics = demo, prep_description = description\<rparr>))))))"

text \<open>The arguments of \<open>tx.add_arguments\<close>, lines 253 to 269.\<close>

definition transaction_arguments :: "(string \<times> pyval) list \<Rightarrow> prepared \<Rightarrow> pyerror + tx_arguments" where
  "transaction_arguments proposal_data prep =
     ebind (subscript proposal_data ''parkName'') (\<lambda>park_name.
     ebind (subscript proposal_data ''parkId'') (\<lambda>park_id.
     Inr \<lparr>arg_parkName = park_name, arg_parkId = park_id,
          arg_description = prep_description prep,
          arg_endDate = prep_endDate prep,
          arg_environment = prep_environment prep,
          arg_demographics = prep_demographics prep\<rparr>))"

text \<open>\<open>create_proposal_on_blockchain\<close>: the result and what was done on the ledger.\<close>

definition create_proposal_on_blockchain ::
  "pylib \<Rightarrow> datelib \<Rightarrow> service \<Rightarrow> chain \<Rightarrow> rat \<Rightarrow> rat \<Rightarrow> (string \<times> pyval) list
     \<Rightarrow> submission_result \<times> event list" where
  "create_proposal_on_blockchain L D svc c now0 now proposal_data =
     (if \<not> is_connected c then (NotConnected, [])
      else if address svc = [] \<or> signer svc = None then (NotConfigured, [])
      else
        (case prepare_arguments L D c now0 now proposal_data of
           Inl e \<Rightarrow> (Raised (Py e), [])
         | Inr prep \<Rightarrow>
             (case get_account c of
                Inl e \<Rightarrow> (Raised e, [])
              | Inr account_balance \<Rightarrow>
                  (let balance = fdiv (fl (of_int account_balance)) 100000000 in
                   if balance < fl (1 / 1000) then (InsufficientBalance balance, [])
                   else
                     (case get_latest_block c of
                        Some e \<Rightarrow> (Raised e, [])
                      | None \<Rightarrow>
                          (case transaction_arguments proposal_data prep of
                             Inl e \<Rightarrow> (Raised (Py e), [])
                           | Inr args \<Rightarrow>
                               (case build_transaction c args of
                                  Some e \<Rightarrow> (Raised e, [])
                                | None \<Rightarrow>
                                    (case send_transaction c args of
                                       Inl e \<Rightarrow> (Raised e, [SendTransaction args])
                                     | Inr tx_id \<Rightarrow>
                                         apsnd (\<lambda>ev. SendTransaction args # ev)
                                           (poll_for_seal L svc c tx_id 0)))))))))"

section \<open>Reading a proposal\<close>

text \<open>The record that \<open>_parse_proposal_result\<close> returns.\<close>

record environmental_data =
  ndviBefore :: rat
  ndviAfter :: rat
  pm25Before :: rat
  pm25After :: rat
  pm25IncreasePercent :: rat
  vegetationLossPercent :: rat

record demographics_data =
  children :: int
  adults :: int
  seniors :: int
  totalAffectedPopulation :: int

record proposal_record =
  proposal_id :: int
  parkName :: pystr
  parkId :: pystr
  description :: pystr
  yesVotes :: int
  noVotes :: int
  endDate :: int
  creator :: pystr
  proposal_status :: pystr
  environmentalData :: environmental_data
  demographics :: demographics_data

text \<open>\<open>get_field_value\<close>, with \<open>PNone\<close> for \<open>None\<close>.\<close>

definition get_field_value :: "pyval \<Rightarrow> string \<Rightarrow> pyval" where
  "get_field_value struct field_name =
     (case fields_attr struct of
        None \<Rightarrow> PNone
      | Some field_dict \<Rightarrow>
          (case map_of field_dict field_name of
             None \<Rightarrow> PNone
           | Some field_obj \<Rightarrow>
               (case field_obj of
                  PNone \<Rightarrow> PNone
                | PStr s \<Rightarrow> PStr s
                | _ \<Rightarrow> (case value_attr field_obj of Some v \<Rightarrow> v | None \<Rightarrow> field_obj))))"

text \<open>The status of lines 563 to 574.\<close>

definition status_of :: "pylib \<Rightarrow> pyval \<Rightarrow> pyerror + pystr" where
  "status_of L status_enum =
     (let status_value =
            (case value_attr status_enum of
               Some v \<Rightarrow> v
             | None \<Rightarrow> if rawValue_attr status_enum
                       then get_field_value status_enum ''rawValue''
                       else status_enum)
      in ebind (if status_value \<noteq> PNone then py_int L status_value else Inr 0) (\<lambda>n.
         Inr (if n = 0 then lit ''active''
              else if n = 1 then lit ''passed''
              else if n = 2 then lit ''rejected''
              else lit ''active'')))"

definition parse_environmental_data :: "pylib \<Rightarrow> pyval \<Rightarrow> pyerror + environmental_data" where
  "parse_environmental_data L env_data =
     ebind (ufix64_to_float L (get_field_value env_data ''ndviBefore'')) (\<lambda>a.
     ebind (ufix64_to_float L (get_field_value env_data ''ndviAfter'')) (\<lambda>b.
     ebind (ufix64_to_float L (get_field_value env_data ''pm25Before'')) (\<lambda>c.
     ebind (ufix64_to_float L (get_field_value env_data ''pm25After'')) (\<lambda>d.
     ebind (ufix64_to_float L (get_field_value env_data ''pm25IncreasePercent'')) (\<lambda>e.
     ebind (ufix64_to_float L (get_field_value env_data ''vegetationLossPercent'')) (\<lambda>f.
     Inr \<lparr>ndviBefore = a, ndviAfter = b, pm25Before = c, pm25After = d,
          pm25IncreasePercent = e, vegetationLossPercent = f\<rparr>))))))"

definition parse_demographics :: "pylib \<Rightarrow> pyval \<Rightarrow> pyerror + demographics_data" where
  "parse_demographics L demo_data =
     ebind (uint64_to_int L (get_field_value demo_data ''children'')) (\<lambda>a.
     ebind (uint64_to_int L (get_field_value demo_data ''adults'')) (\<lambda>b.
     ebind (uint64_to_int L (get_field_value demo_data ''seniors'')) (\<lambda>c.
     ebind (uint64_to_int L (get_field_value demo_data ''totalAffectedPopulation'')) (\<lambda>d.
     Inr \<lparr>children = a, adults = b, seniors = c, totalAffectedPopulation = d\<rparr>))))"

text \<open>Lines 548 to 608: the fields of the struct, any exception ending the extraction.\<close>

definition parse_struct :: "pylib \<Rightarrow> pyval \<Rightarrow> int option \<Rightarrow> pyerror + proposal_record" where
  "parse_struct L proposal_struct proposal_id_arg =
     ebind (case proposal_id_arg of
              None \<Rightarrow> uint64_to_int L (get_field_value proposal_struct ''id'')
            | Some given \<Rightarrow> Inr given) (\<lambda>pid.
     let park_name = py_str L (or_empty (get_field_value proposal_struct ''parkName''));
         park_id = py_str L (or_empty (get_field_value proposal_struct ''parkId''));
         descr = py_str L (or_empty (get_field_value proposal_struct ''description''))
     in
     ebind (uint64_to_int L (get_field_value proposal_struct ''yesVotes'')) (\<lambda>yes_votes.
     ebind (uint64_to_int L (get_field_value proposal_struct ''noVotes'')) (\<lambda>no_votes.
     ebind (ufix64_to_float L (get_field_value proposal_struct ''endDate'')) (\<lambda>end_date.
     let creator_str = py_str L (or_empty (get_field_value proposal_struct ''creator'')) in
     ebind (status_of L (get_field_value proposal_struct ''status'')) (\<lambda>st.
     ebind (parse_environmental_data L (get_field_value proposal_struct ''environmentalData''))
       (\<lambda>environmental.
     ebind (parse_demographics L (get_field_value proposal_struct ''demographics'')) (\<lambda>demo.
     Inr \<lparr>proposal_id = pid, parkName = park_name, parkId = park_id, description = descr,
          yesVotes = yes_votes, noVotes = no_votes, endDate = py_trunc end_date,
          creator = creator_str, proposal_status = st,
          environmentalData = environmental, demographics = demo\<rparr>)))))))"

text \<open>\<open>_parse_proposal_result\<close>: \<open>None\<close> for a missing proposal and for any exception.\<close>

definition parse_proposal_result :: "pylib \<Rightarrow> pyval \<Rightarrow> int option \<Rightarrow> proposal_record option" where
  "parse_proposal_result L result proposal_id_arg =
     (if \<not> truthy result then None
      else if value_attr result = Some PNone then None
      else
        (let proposal_struct = proposal_struct_of result
         in if \<not> truthy proposal_struct then None
            else (case parse_struct L proposal_struct proposal_id_arg of
                    Inl e \<Rightarrow> None
                  | Inr r \<Rightarrow> Some r)))"

text \<open>
  A struct as the contract declares it, with any of its fields missing: a vote count or
  a head count is an integer, a fixed-point number is an integer that fits a float, the
  status is an integer or an enum whose \<open>rawValue\<close> is one.
\<close>

definition uint_ok :: "pyval \<Rightarrow> bool" where
  "uint_ok v = (case v of PNone \<Rightarrow> True | PInt n \<Rightarrow> True | _ \<Rightarrow> False)"

definition ufix_ok :: "pyval \<Rightarrow> bool" where
  "ufix_ok v = (case v of PNone \<Rightarrow> True | PInt n \<Rightarrow> \<bar>n\<bar> < 2 ^ 1024 - 2 ^ 970 | _ \<Rightarrow> False)"

definition status_ok :: "pyval \<Rightarrow> bool" where
  "status_ok status_enum =
     (case value_attr status_enum of
        Some v \<Rightarrow> uint_ok v
      | None \<Rightarrow> if rawValue_attr status_enum
                then uint_ok (get_field_value status_enum ''rawValue'')
                else uint_ok status_enum)"

definition well_typed :: "pyval \<Rightarrow> bool" where
  "well_typed s \<longleftrightarrow>
     uint_ok (get_field_value s ''yesVotes'') \<and> uint_ok (get_field_value s ''noVotes'') \<and>
     ufix_ok (get_field_value s ''endDate'') \<and> status_ok (get_field_value s ''status'') \<and>
     list_all (\<lambda>k. ufix_ok (get_field_value (get_field_value s ''environmentalData'') k))
       [''ndviBefore'', ''ndviAfter'', ''pm25Before'', ''pm25After'', ''pm25IncreasePercent'',
        ''vegetationLossPercent''] \<and>
     list_all (\<lambda>k. uint_ok (get_field_value (get_field_value s ''demographics'') k))
       [''children'', ''adults'', ''seniors'', ''totalAffectedPopulation'']"

text \<open>Every field that is missing or \<open>None\<close> has its default in the record.\<close>

definition zero_defaults :: "pyval \<Rightarrow> proposal_record \<Rightarrow> bool" where
  "zero_defaults s r \<longleftrightarrow>
     (get_field_value s ''parkName'' = PNone \<longrightarrow> parkName r = []) \<and>
     (get_field_value s ''parkId'' = PNone \<longrightarrow> parkId r = []) \<and>
     (get_field_value s ''description'' = PNone \<longrightarrow> description r = []) \<and>
     (get_field_value s ''creator'' = PNone \<longrightarrow> creator r = []) \<and>
     (get_field_value s ''yesVotes'' = PNone \<longrightarrow> yesVotes r = 0) \<and>
     (get_field_value s ''noVotes'' = PNone \<longrightarrow> noVotes r = 0) \<and>
     (get_field_value s ''endDate'' = PNone \<longrightarrow> endDate r = 0) \<and>
     (get_field_value s ''status'' = PNone \<longrightarrow> proposal_status r = lit ''active'') \<and>
     (let e = get_field_value s ''environmentalData''; d = environmentalData r in
        (get_field_value e ''ndviBefore'' = PNone \<longrightarrow> ndviBefore d = 0) \<and>
        (get_field_value e ''ndviAfter'' = PNone \<longrightarrow> ndviAfter d = 0) \<and>
        (get_field_value e ''pm25Before'' = PNone \<longrightarrow> pm25Before d = 0) \<and>
        (get_field_value e ''pm25After'' = PNone \<longrightarrow> pm25After d = 0) \<and>
        (get_field_value e ''pm25IncreasePercent'' = PNone \<longrightarrow> pm25IncreasePercent d = 0) \<and>
        (get_field_value e ''vegetationLossPercent'' = PNone \<longrightarrow> vegetationLossPercent d = 0)) \<and>
     (let e = get_field_value s ''demographics''; d = demographics r in
        (get_field_value e ''children'' = PNone \<longrightarrow> children d = 0) \<and>
        (get_field_value e ''adults'' = PNone \<longrightarrow> adults d = 0) \<and>
        (get_field_value e ''seniors'' = PNone \<longrightarrow> seniors d = 0) \<and>
        (get_field_value e ''totalAffectedPopulation'' = PNone \<longrightarrow> totalAffectedPopulation d = 0))"

text \<open>
  A response for examples: an optional that holds a struct with a name and a vote
  count, every other field missing, and the type identifier in place of the id.
\<close>

definition example_struct :: pyval where
  "example_struct =
     PObj None
       (Some [(''id'', PStr (lit ''A.0x01.CommunityVoting.Proposal'')),
              (''parkName'', PObj (Some (PStr (lit ''Rock Creek Park''))) None False True []),
              (''yesVotes'', PObj (Some (PInt 3)) None False True [])])
       False True []"

definition example_result :: pyval where
  "example_result = PObj (Some example_struct) None False True []"

text \<open>The marker test of line 368.\<close>

definition rate_limited :: "pystr \<Rightarrow> bool" where
  "rate_limited error_msg \<longleftrightarrow> sublist (lit ''rate limited'') (lower error_msg)"

text \<open>
  \<open>get_proposal\<close>: the \<open>for attempt in range(max_retries)\<close> loop, entered with \<open>attempt\<close>
  and \<open>retry_delay\<close>. \<open>execute k\<close> is what attempt number \<open>k\<close> gives: an exception
  of the \<open>try\<close> block with its text, an empty result, or the decoded value.
\<close>

function get_proposal_loop ::
  "pylib \<Rightarrow> (nat \<Rightarrow> pystr + pyval option) \<Rightarrow> int \<Rightarrow> nat \<Rightarrow> nat
     \<Rightarrow> proposal_record option \<times> event list" where
  "get_proposal_loop L execute pid attempt retry_delay =
     (if attempt < 3 then
        (case execute attempt of
           Inr (Some cadence_value) \<Rightarrow>
             (parse_proposal_result L cadence_value (Some pid), [ExecuteScript])
         | Inr None \<Rightarrow> (None, [ExecuteScript])
         | Inl error_msg \<Rightarrow>
             if rate_limited error_msg \<and> attempt < 3 - 1 then
               apsnd (\<lambda>ev. ExecuteScript # Sleep retry_delay # ev)
                 (get_proposal_loop L execute pid (Suc attempt) (retry_delay * 2))
             else (None, [ExecuteScript]))
      else (None, []))"
  by pat_completeness auto
termination
  by (relation "measure (\<lambda>(L, execute, pid, attempt, retry_delay). 3 - attempt)") auto

definition get_proposal ::
  "pylib \<Rightarrow> (nat \<Rightarrow> pystr + pyval option) \<Rightarrow> int \<Rightarrow> proposal_record option \<times> event list" where
  "get_proposal L execute pid = get_proposal_loop L execute pid 0 2"

text \<open>The longest run of \<open>get_proposal\<close>: three attempts, with sleeps of 2 and 4 seconds.\<close>

definition retry_schedule :: "event list" where
  "retry_schedule = [ExecuteScript, Sleep 2, ExecuteScript, Sleep 4, ExecuteScript]"

section \<open>Closing expired proposals\<close>

text \<open>
  \<open>close_proposals.py\<close>. \<open>get_proposal_details i id\<close> and \<open>close_proposal i id\<close> are what
  the two methods return in iteration \<open>i\<close> of the sweep (both catch every exception:
  \<open>PNone\<close> and \<open>False\<close>).
\<close>

record sweep_env =
  get_proposal_details :: "nat \<Rightarrow> int \<Rightarrow> pyval"
  close_proposal :: "nat \<Rightarrow> int \<Rightarrow> bool"

record counts =
  closed_count :: nat
  skipped_count :: nat
  failed_count :: nat

datatype outcome = Closed | CloseFailed | Skipped | FetchFailed | NoEndDate | BadStructure

text \<open>One iteration of the loop of lines 227 to 266: what happens to the proposal.\<close>

definition process_proposal ::
  "pylib \<Rightarrow> datelib \<Rightarrow> sweep_env \<Rightarrow> rat \<Rightarrow> nat \<Rightarrow> int \<Rightarrow> pyerror + outcome" where
  "process_proposal L D E current_time i pid =
     (let proposal = get_proposal_details E i pid in
      if \<not> truthy proposal then Inr FetchFailed
      else
        (let proposal_struct = proposal_struct_of proposal in
         case fields_attr proposal_struct of
           None \<Rightarrow> Inr BadStructure
         | Some field_dict \<Rightarrow>
             (let end_date_field = (case map_of field_dict ''endDate'' of None \<Rightarrow> PNone | Some f \<Rightarrow> f) in
              case (if truthy end_date_field then value_attr end_date_field else None) of
                None \<Rightarrow> Inr NoEndDate
              | Some v \<Rightarrow>
                  ebind (py_float L v) (\<lambda>x.
                    let end_date = fdiv x 100000000 in
                    if \<not> fromtimestamp_ok D end_date \<or> \<not> fromtimestamp_ok D current_time
                    then Inl OverflowError
                    else if current_time > end_date
                    then (if close_proposal E i pid then Inr Closed else Inr CloseFailed)
                    else Inr Skipped))))"

text \<open>The \<open>end_date_field.value\<close> that line 245 converts, when the iteration gets there.\<close>

definition end_date_value :: "pyval \<Rightarrow> pyval option" where
  "end_date_value proposal =
     (case fields_attr (proposal_struct_of proposal) of
        None \<Rightarrow> None
      | Some field_dict \<Rightarrow>
          (let end_date_field = (case map_of field_dict ''endDate'' of None \<Rightarrow> PNone | Some f \<Rightarrow> f)
           in if truthy end_date_field then value_attr end_date_field else None))"

definition tally :: "outcome \<Rightarrow> counts \<Rightarrow> counts" where
  "tally out cnt =
     (case out of
        Closed \<Rightarrow> cnt\<lparr>closed_count := closed_count cnt + 1\<rparr>
      | Skipped \<Rightarrow> cnt\<lparr>skipped_count := skipped_count cnt + 1\<rparr>
      | _ \<Rightarrow> cnt\<lparr>failed_count := failed_count cnt + 1\<rparr>)"

definition close_issued :: "outcome \<Rightarrow> bool" where
  "close_issued out \<longleftrightarrow> out = Closed \<or> out = CloseFailed"

text \<open>The loop from iteration \<open>i\<close> on: the counters and the close transactions sent, or the
  exception that ends the sweep.\<close>

fun sweep :: "pylib \<Rightarrow> datelib \<Rightarrow> sweep_env \<Rightarrow> rat \<Rightarrow> nat \<Rightarrow> int list \<Rightarrow> counts \<Rightarrow> event list
    \<Rightarrow> pyerror + counts \<times> event list" where
  "sweep L D E current_time i [] cnt ev = Inr (cnt, ev)"
| "sweep L D E current_time i (pid # rest) cnt ev =
     (case process_proposal L D E current_time i pid of
        Inl e \<Rightarrow> Inl e
      | Inr out \<Rightarrow>
          sweep L D E current_time (Suc i) rest (tally out cnt)
            (if close_issued out then ev @ [CloseProposal pid] else ev))"

text \<open>\<open>close_all_active_proposals\<close>: nothing is counted when there is no active proposal;
  otherwise the counters that the summary logs.\<close>

definition close_all_active_proposals ::
  "pylib \<Rightarrow> datelib \<Rightarrow> sweep_env \<Rightarrow> rat \<Rightarrow> int list \<Rightarrow> pyerror + (counts \<times> event list) option" where
  "close_all_active_proposals L D E current_time active_proposals =
     (if active_proposals = [] then Inr None
      else ebind (sweep L D E current_time 0 active_proposals
                    \<lparr>closed_count = 0, skipped_count = 0, failed_count = 0\<rparr> [])
             (\<lambda>r. Inr (Some r)))"

text \<open>
  A ledger for examples: proposal 1 ended in 2020, proposal 2 ends in 2027, any other
  proposal cannot be fetched, and closing succeeds.
\<close>

definition proposal_ending :: "int \<Rightarrow> pyval" where
  "proposal_ending raw =
     PObj (Some (PObj None (Some [(''endDate'', PObj (Some (PInt raw)) None False True [])])
                   False True []))
       None False True []"

definition example_sweep_env :: sweep_env where
  "example_sweep_env =
     \<lparr>get_proposal_details =
        (\<lambda>i pid. if pid = 1 then proposal_ending 160000000000000000
                 else if pid = 2 then proposal_ending 180000000000000000
                 else PNone),
      close_proposal = (\<lambda>i pid. True)\<rparr>"

text \<open>
  \<open>ProposalCloser.__init__\<close> builds the signer from whatever the key is, and \<open>main\<close>
  constructs the closer and runs the sweep; an exception of either leaves the script.
\<close>

datatype closer_run = Crashed exn | Completed "(counts \<times> event list) option"

definition ProposalCloser_init :: "(pystr option \<Rightarrow> exn + pystr) \<Rightarrow> pystr option \<Rightarrow> exn + pystr" where
  "ProposalCloser_init sdk private_key_hex = sdk private_key_hex"

definition closer_main ::
  "(pystr option \<Rightarrow> exn + pystr) \<Rightarrow> pystr option \<Rightarrow> pylib \<Rightarrow> datelib \<Rightarrow> sweep_env \<Rightarrow> rat
     \<Rightarrow> int list \<Rightarrow> closer_run" where
  "closer_main sdk private_key_hex L D E current_time active_proposals =
     (case ProposalCloser_init sdk private_key_hex of
        Inl e \<Rightarrow> Crashed e
      | Inr closer_signer \<Rightarrow>
          (case close_all_active_proposals L D E current_time active_proposals of
             Inl e \<Rightarrow> Crashed (Py e)
           | Inr r \<Rightarrow> Completed r))"

text \<open>
  The SDK's \<open>InMemorySigner\<close> decodes the key with \<open>bytes.fromhex\<close>, which raises
  \<open>TypeError\<close> for a key that is not set; \<open>from_key\<close> is what it does with a key that is.
\<close>

definition InMemorySigner :: "(pystr \<Rightarrow> exn + pystr) \<Rightarrow> pystr option \<Rightarrow> exn + pystr" where
  "InMemorySigner from_key private_key_hex =
     (case private_key_hex of
        None \<Rightarrow> Inl (Py TypeError)
      | Some k \<Rightarrow> from_key k)"

section \<open>Exceptions as values\<close>


lemma ebind_Inr: "ebind (Inr x) f = f x"
  by (simp add: ebind_def)

lemma ebind_Inl: "ebind (Inl e) f = Inl e"
  by (simp add: ebind_def)

lemma ebind_eq_Inr: "ebind m f = Inr y \<longleftrightarrow> (\<exists>x. m = Inr x \<and> f x = Inr y)"
  by (cases m) (simp_all add: ebind_def)

section \<open>Rounding to binary64\<close>

lemma pow2_pos: "0 < pow2 e"
  by (simp add: pow2_def)

lemma pow2_Suc: "pow2 (e + 1) = 2 * pow2 e"
proof (cases "0 \<le> e")
  case True
  then show ?thesis by (simp add: pow2_def nat_add_distrib)
next
  case False
  then have "nat (- e) = Suc (nat (- (e + 1)))" by simp
  then show ?thesis using False by (simp add: pow2_def)
qed

lemma pow2_neg: "pow2 (- int n) = 1 / 2 ^ n"
proof (cases n)
  case 0
  then show ?thesis by (simp add: pow2_def)
next
  case (Suc m)
  have "nat (int m + 1) = Suc m" by simp
  then show ?thesis using Suc by (simp add: pow2_def del: nat_int_add)
qed

lemma pow2_nonneg: "pow2 (int n) = 2 ^ n"
  by (simp add: pow2_def)

lemma floorlog_eqI: "2 ^ j \<le> n \<Longrightarrow> n < 2 ^ Suc j \<Longrightarrow> floorlog 2 n = Suc j"
proof -
  assume a: "2 ^ j \<le> n" and b: "n < 2 ^ Suc j"
  have "floorlog 2 n \<le> Suc j" using b by (intro floorlog_leI) simp_all
  moreover have "Suc j \<le> floorlog 2 n" using a by (intro floorlog_geI) simp_all
  ultimately show ?thesis by simp
qed

lemma ilog2_eqI:
  assumes lo: "pow2 k \<le> x" and hi: "x < pow2 (k + 1)"
  shows "ilog2 x = k"
proof (cases "1 \<le> x")
  case True
  have k0: "0 \<le> k"
  proof (rule ccontr)
    assume "\<not> 0 \<le> k"
    then have "pow2 (k + 1) \<le> 1" by (simp add: pow2_def)
    with hi True show False by simp
  qed
  define j where "j = nat k"
  have lo': "(2::rat) ^ j \<le> x" using lo k0 by (simp add: pow2_def j_def)
  have hi': "x < (2::rat) ^ Suc j" using hi k0 by (simp add: pow2_def j_def nat_add_distrib)
  have "(of_int (2 ^ j) :: rat) \<le> x" using lo' by simp
  then have f1: "(2::int) ^ j \<le> \<lfloor>x\<rfloor>" by (simp only: le_floor_iff)
  have "x < of_int (2 ^ Suc j)" using hi' by simp
  then have f2: "\<lfloor>x\<rfloor> < (2::int) ^ Suc j" by (simp only: floor_less_iff)
  have n1: "2 ^ j \<le> nat \<lfloor>x\<rfloor>" using f1 by (simp add: le_nat_iff)
  have p: "0 \<le> \<lfloor>x\<rfloor>" using True by simp
  have n2: "nat \<lfloor>x\<rfloor> < 2 ^ Suc j" using f2 p by (simp add: nat_less_iff)
  have "floorlog 2 (nat \<lfloor>x\<rfloor>) = Suc j" using n1 n2 by (rule floorlog_eqI)
  then show ?thesis using True k0 by (simp add: ilog2_def j_def)
next
  case False
  have xpos: "0 < x" using lo pow2_pos [of k] by simp
  have kneg: "k < 0"
  proof (rule ccontr)
    assume "\<not> k < 0"
    then have "1 \<le> pow2 k" by (simp add: pow2_def)
    with lo False show False by simp
  qed
  define j where "j = nat (- k - 1)"
  have kj: "k = - int (Suc j)" using kneg by (simp add: j_def)
  have kj': "k + 1 = - int j" using kj by simp
  have lo': "1 / 2 ^ Suc j \<le> x" using lo unfolding kj pow2_neg .
  have hi': "x < 1 / 2 ^ j" using hi unfolding kj' pow2_neg .
  have a: "1 / x \<le> 2 ^ Suc j"
  proof -
    have "1 \<le> x * 2 ^ Suc j" using lo' by (simp add: field_simps)
    then show ?thesis using xpos by (simp add: field_simps)
  qed
  have b: "2 ^ j < 1 / x"
  proof -
    have "x * 2 ^ j < 1" using hi' by (simp add: field_simps)
    then show ?thesis using xpos by (simp add: field_simps)
  qed
  have "1 / x \<le> of_int (2 ^ Suc j)" using a by simp
  then have c1: "\<lceil>1 / x\<rceil> \<le> 2 ^ Suc j" by (simp only: ceiling_le_iff)
  have "of_int (2 ^ j) < 1 / x" using b by simp
  then have c2: "2 ^ j < \<lceil>1 / x\<rceil>" by (simp only: less_ceiling_iff)
  have n1: "2 ^ j \<le> nat (\<lceil>1 / x\<rceil> - 1)" using c2 by (simp add: le_nat_iff)
  have "(0::int) < 2 ^ j" by simp
  with c2 have cp: "0 \<le> \<lceil>1 / x\<rceil> - 1" by linarith
  have n2: "nat (\<lceil>1 / x\<rceil> - 1) < 2 ^ Suc j" using c1 cp by (simp add: nat_less_iff)
  have "floorlog 2 (nat (\<lceil>1 / x\<rceil> - 1)) = Suc j" using n1 n2 by (rule floorlog_eqI)
  then show ?thesis using False kj by (simp add: ilog2_def)
qed

lemma rne_eqI:
  assumes "of_int n - 1 / 2 < q" and "q < of_int n + 1 / 2"
  shows "rne q = n"
proof -
  have "\<lfloor>q\<rfloor> = n \<or> \<lfloor>q\<rfloor> = n - 1" using assms by linarith
  then show ?thesis
  proof
    assume f: "\<lfloor>q\<rfloor> = n"
    then have "q - of_int \<lfloor>q\<rfloor> < 1 / 2" using assms by simp
    then show ?thesis using f by (simp add: rne_def Let_def)
  next
    assume f: "\<lfloor>q\<rfloor> = n - 1"
    then have "1 / 2 < q - of_int \<lfloor>q\<rfloor>" using assms by simp
    then show ?thesis using f by (simp add: rne_def Let_def)
  qed
qed

lemma rne_of_int: "rne (of_int n) = n"
  by (rule rne_eqI) simp_all

lemma fl_eqI:
  assumes lo: "pow2 (e + 52) \<le> x" and hi: "x < pow2 (e + 53)" and sub: "- 1074 \<le> e"
    and r1: "of_int m - 1 / 2 < x / pow2 e" and r2: "x / pow2 e < of_int m + 1 / 2"
  shows "fl x = of_int m * pow2 e"
proof -
  have xpos: "0 < x" using lo pow2_pos [of "e + 52"] by simp
  have "ilog2 x = e + 52" using lo hi by (intro ilog2_eqI) (simp_all add: add.commute add.left_commute)
  then have e: "max (ilog2 \<bar>x\<bar> - 52) (- 1074) = e" using xpos sub by simp
  have "rne (x / pow2 e) = m" using r1 r2 by (rule rne_eqI)
  then show ?thesis using xpos e by (simp add: fl_def Let_def)
qed

lemma rne_le: "q \<le> of_int n \<Longrightarrow> rne q \<le> n"
proof -
  assume a: "q \<le> of_int n"
  have f: "\<lfloor>q\<rfloor> \<le> n" using a by linarith
  show ?thesis
  proof (cases "q = of_int \<lfloor>q\<rfloor>")
    case True
    then have "rne q = \<lfloor>q\<rfloor>" by (simp add: rne_def Let_def)
    with f show ?thesis by simp
  next
    case False
    then have "of_int \<lfloor>q\<rfloor> < q" by linarith
    with a have "\<lfloor>q\<rfloor> + 1 \<le> n" by linarith
    moreover have "rne q \<le> \<lfloor>q\<rfloor> + 1" by (simp add: rne_def Let_def)
    ultimately show ?thesis by linarith
  qed
qed

lemma rne_ge: "of_int n \<le> q \<Longrightarrow> n \<le> rne q"
proof -
  assume a: "of_int n \<le> q"
  have "n \<le> \<lfloor>q\<rfloor>" using a by linarith
  moreover have "\<lfloor>q\<rfloor> \<le> rne q" by (simp add: rne_def Let_def)
  ultimately show ?thesis by linarith
qed

lemma ilog2_le_52: assumes "x < 2 ^ 53" shows "ilog2 x \<le> 52"
proof (cases "1 \<le> x")
  case True
  have "x < of_int (2 ^ 53)" using assms by simp
  then have "\<lfloor>x\<rfloor> < 2 ^ 53" by (simp only: floor_less_iff)
  moreover have "0 \<le> \<lfloor>x\<rfloor>" using True by simp
  ultimately have "nat \<lfloor>x\<rfloor> < 2 ^ 53" by (simp add: nat_less_iff)
  then have "floorlog 2 (nat \<lfloor>x\<rfloor>) \<le> 53" by (intro floorlog_leI) simp_all
  then show ?thesis using True by (simp add: ilog2_def)
next
  case False
  then show ?thesis by (simp add: ilog2_def)
qed

text \<open>Below \<open>2^53\<close> the grid of binary64 numbers contains every integer, so rounding never
  crosses an integer.\<close>

lemma fl_small:
  assumes "0 < x" and "x < 2 ^ 53"
  obtains k where "fl x = of_int (rne (x * 2 ^ k)) / 2 ^ k"
proof -
  define e where "e = max (ilog2 \<bar>x\<bar> - 52) (- 1074)"
  have "ilog2 x \<le> 52" using assms(2) by (rule ilog2_le_52)
  then have e0: "e \<le> 0" using assms(1) by (simp add: e_def)
  define k where "k = nat (- e)"
  have ek: "e = - int k" using e0 by (simp add: k_def)
  have "fl x = of_int (rne (x / pow2 e)) * pow2 e"
    using assms(1) by (simp add: fl_def Let_def e_def)
  then have "fl x = of_int (rne (x * 2 ^ k)) / 2 ^ k" unfolding ek pow2_neg by simp
  then show ?thesis by (rule that)
qed

lemma fl_le_int:
  assumes "0 < x" and "x < 2 ^ 53" and "x \<le> of_int n"
  shows "fl x \<le> of_int n"
proof -
  obtain k where k: "fl x = of_int (rne (x * 2 ^ k)) / 2 ^ k"
    using assms(1,2) by (rule fl_small)
  have "x * 2 ^ k \<le> of_int n * 2 ^ k" using assms(3) by simp
  then have "x * 2 ^ k \<le> of_int (n * 2 ^ k)" by simp
  then have "rne (x * 2 ^ k) \<le> n * 2 ^ k" by (rule rne_le)
  then have "(of_int (rne (x * 2 ^ k)) :: rat) \<le> of_int (n * 2 ^ k)" by (simp only: of_int_le_iff)
  then have "(of_int (rne (x * 2 ^ k)) :: rat) / 2 ^ k \<le> of_int n"
    by (simp add: field_simps)
  with k show ?thesis by simp
qed

lemma fl_ge_int:
  assumes "0 < x" and "x < 2 ^ 53" and "of_int n \<le> x"
  shows "of_int n \<le> fl x"
proof -
  obtain k where k: "fl x = of_int (rne (x * 2 ^ k)) / 2 ^ k"
    using assms(1,2) by (rule fl_small)
  have "of_int n * 2 ^ k \<le> x * 2 ^ k" using assms(3) by simp
  then have "of_int (n * 2 ^ k) \<le> x * 2 ^ k" by simp
  then have "n * 2 ^ k \<le> rne (x * 2 ^ k)" by (rule rne_ge)
  then have "(of_int (n * 2 ^ k) :: rat) \<le> of_int (rne (x * 2 ^ k))" by (simp only: of_int_le_iff)
  then have "of_int n \<le> (of_int (rne (x * 2 ^ k)) :: rat) / 2 ^ k"
    by (simp add: field_simps)
  with k show ?thesis by simp
qed

lemma default_after_buffer:
  assumes "0 \<le> now0" and "now0 \<le> now" and "now \<le> now0 + 2588398" and "now < 2 ^ 52"
  shows "fadd now 3600 < fadd now0 2592000"
proof -
  define N where "N = \<lceil>now + 3600\<rceil>"
  define M where "M = \<lfloor>now0 + 2592000\<rfloor>"
  have a: "fl (now + 3600) \<le> of_int N"
    using assms by (intro fl_le_int) (simp_all add: N_def)
  have b: "of_int M \<le> fl (now0 + 2592000)"
    using assms by (intro fl_ge_int) (simp_all add: M_def)
  have "of_int N < now + 3600 + 1" unfolding N_def by linarith
  moreover have "now0 + 2592000 - 1 < of_int M" unfolding M_def by linarith
  ultimately have "(of_int N :: rat) < of_int M" using assms(3) by linarith
  with a b show ?thesis by (simp add: fadd_def)
qed


lemma fl_of_small_int:
  assumes "pow2 (e + 52) \<le> of_int n" and "of_int n < pow2 (e + 53)" and "- 1074 \<le> e" and "e \<le> 0"
  shows "fl (of_int n) = of_int n"
proof -
  define k where "k = nat (- e)"
  have ek: "e = - int k" using assms(4) by (simp add: k_def)
  have q: "of_int n / pow2 e = (of_int (n * 2 ^ k) :: rat)" unfolding ek pow2_neg by simp
  have "fl (of_int n) = of_int (n * 2 ^ k) * pow2 e"
    using assms(1,2,3) by (rule fl_eqI) (simp_all add: q)
  then show ?thesis unfolding ek pow2_neg by simp
qed

lemma fl_grid22:
  assumes "2 ^ 30 \<le> x" and "x < 2 ^ 31" and "of_int \<lfloor>x * 2 ^ 22\<rfloor> = x * 2 ^ 22"
  shows "fl x = x"
proof -
  define m where "m = \<lfloor>x * 2 ^ 22\<rfloor>"
  have mx: "of_int m = x * 2 ^ 22" using assms(3) by (simp add: m_def)
  have q: "x / pow2 (- 22) = of_int m" using mx by (simp add: pow2_def)
  have "fl x = of_int m * pow2 (- 22)"
    using assms(1,2) by (intro fl_eqI) (simp_all add: q, simp_all add: pow2_def)
  then show ?thesis using mx by (simp add: pow2_def)
qed

lemma clock_reading_add:
  assumes "clock_reading t" and "0 \<le> n" and "t + of_int n < 2 ^ 31"
  shows "fadd t (of_int n) = t + of_int n" and "clock_reading (t + of_int n)"
proof -
  have g: "of_int \<lfloor>t * 2 ^ 22\<rfloor> = t * 2 ^ 22" using assms(1) unfolding clock_reading_def by blast
  have "(t + of_int n) * 2 ^ 22 = t * 2 ^ 22 + of_int (n * 2 ^ 22)" by (simp add: algebra_simps)
  also have "\<dots> = of_int \<lfloor>t * 2 ^ 22\<rfloor> + of_int (n * 2 ^ 22)" by (simp only: g)
  also have "\<dots> = of_int (\<lfloor>t * 2 ^ 22\<rfloor> + n * 2 ^ 22)" by (simp only: of_int_add)
  finally have eq: "(t + of_int n) * 2 ^ 22 = of_int (\<lfloor>t * 2 ^ 22\<rfloor> + n * 2 ^ 22)" .
  have g': "of_int \<lfloor>(t + of_int n) * 2 ^ 22\<rfloor> = (t + of_int n) * 2 ^ 22"
    unfolding eq by (simp only: floor_of_int)
  have "2 ^ 30 \<le> t" using assms(1) unfolding clock_reading_def by blast
  then have lo: "2 ^ 30 \<le> t + of_int n" using assms(2) by simp
  show "clock_reading (t + of_int n)" unfolding clock_reading_def using lo assms(3) g' by blast
  show "fadd t (of_int n) = t + of_int n"
    unfolding fadd_def using lo assms(3) g' by (rule fl_grid22)
qed






section \<open>The fixed-point round trip\<close>

lemma fl_029: "fl (29 / 100) = 5224175567749775 / 2 ^ 54"
  using fl_eqI [of "- 54" "29 / 100" 5224175567749775] by (simp add: pow2_def)

lemma fmul_029: "fmul (5224175567749775 / 2 ^ 54) 100000000 = 7784628223999999 / 2 ^ 28"
  using fl_eqI [of "- 28" "5224175567749775 / 2 ^ 54 * 100000000" 7784628223999999]
  by (simp add: pow2_def fmul_def)

lemma fl_28999999: "fl (of_int 28999999) = 28999999"
  using fl_of_small_int [of "- 28" 28999999] by (simp add: pow2_def)

lemma fdiv_28999999: "fdiv 28999999 100000000 = 5224175387605790 / 2 ^ 54"
  using fl_eqI [of "- 54" "28999999 / 100000000" 5224175387605790]
  by (simp add: pow2_def fdiv_def)

text \<open>
  C2. The round trip is not exact for the float \<open>0.29\<close>, a decimal with two fractional
  digits. Its binary64 value lies just below \<open>29/100\<close>, the product with \<open>1e8\<close> rounds to
  \<open>28999999.999999996\<close>, \<open>int\<close> truncates that to \<open>28999999\<close>, and decoding \<open>28999999\<close>
  gives the float \<open>0.28999999\<close>, which is not the float \<open>0.29\<close>.
\<close>

theorem ufix64_round_trip_fails:
  "fl (29 / 100) = 5224175567749775 / 2 ^ 54
   \<and> to_ufix64 (fl (29 / 100)) = 28999999
   \<and> ufix64_to_float L (PInt (to_ufix64 (fl (29 / 100)))) = Inr (5224175387605790 / 2 ^ 54)
   \<and> ufix64_to_float L (PInt (to_ufix64 (fl (29 / 100)))) \<noteq> Inr (fl (29 / 100))"
proof -
  have enc: "to_ufix64 (5224175567749775 / 2 ^ 54) = 28999999"
    unfolding to_ufix64_def fmul_029 by (simp add: py_trunc_def floor_eq_iff)
  have dec: "ufix64_to_float L (PInt 28999999) = Inr (5224175387605790 / 2 ^ 54)"
    using fl_28999999 fdiv_28999999 by (simp add: ufix64_to_float_def ebind_def)
  show ?thesis unfolding fl_029 enc dec by simp
qed

section \<open>Properties of summary generation\<close>

lemma length_filler: "length filler = 63"
  by (simp add: filler_def lit_def)

lemma ensure_length_long: "230 \<le> length s \<Longrightarrow> length_ok (ensure_length s)"
  by (simp add: ensure_length_def length_ok_def)

lemma ensure_length_short: "length s < 230 \<Longrightarrow> length (ensure_length s) = length s + 63"
  by (simp add: ensure_length_def length_filler)

lemma strip_plain: "s \<noteq> [] \<Longrightarrow> \<not> py_isspace (hd s) \<Longrightarrow> \<not> py_isspace (last s) \<Longrightarrow> strip s = s"
proof -
  assume ne: "s \<noteq> []" and h: "\<not> py_isspace (hd s)" and l: "\<not> py_isspace (last s)"
  from ne h have "dropWhile py_isspace s = s" by (cases s) simp_all
  moreover from ne l have "dropWhile py_isspace (rev s) = rev s"
    by (cases "rev s") (simp_all add: last_rev [symmetric] hd_rev)
  ultimately show ?thesis by (simp add: strip_def)
qed

text \<open>
  C4. The description is not always 230 to 240 characters long. A summarizer output of
  six characters (\<open>Short.\<close>) gets the filler sentence once and comes out 69 characters long;
  an output of 229 characters gets the filler too and comes out 292 characters long,
  untruncated; and when the summarizer fails, the fallback template with the default
  values is 25 characters long.
\<close>

theorem summary_length_violated:
  "length (generate_blockchain_summary L (Inr (lit ''Short.'')) ad) = 69
   \<and> \<not> length_ok (generate_blockchain_summary L (Inr (lit ''Short.'')) ad)
   \<and> length (generate_blockchain_summary L (Inr (replicate 229 120)) ad) = 292
   \<and> \<not> length_ok (generate_blockchain_summary L (Inr (replicate 229 120)) ad)
   \<and> length (generate_blockchain_summary
example_pylib (Inl e) []) = 25
   \<and> \<not> length_ok (generate_blockchain_summary
example_pylib (Inl e) [])"
proof -
  have s1: "strip (lit ''Short.'') = lit ''Short.''"
    by (rule strip_plain) (simp_all add: lit_def py_isspace_def)
  have s2: "strip (replicate 229 120) = replicate 229 120"
    by (rule strip_plain) (simp_all add: py_isspace_def)
  have l1: "length (lit ''Short.'') = 6" by (simp add: lit_def)
  have a: "length (generate_blockchain_summary L (Inr (lit ''Short.'')) ad) = 69"
    by (simp add: generate_blockchain_summary_def s1 l1 ensure_length_short)
  have b: "length (generate_blockchain_summary L (Inr (replicate 229 120)) ad) = 292"
    by (simp add: generate_blockchain_summary_def s2 ensure_length_short)
  have c: "length (generate_blockchain_summary
example_pylib (Inl e) []) = 25"
    by (simp add: generate_blockchain_summary_def fallback_summary_def dict_get_def lit_def
        example_pylib_def)
  show ?thesis
    unfolding length_ok_def a b c by simp
qed

section \<open>Properties of end-date normalisation\<close>

text \<open>
  C1. The end of the day of the parsed date is kept when it is later than the current
  time plus one hour, and replaced by the current time plus 30 days plus one hour when
  it is not; a date that does not parse gives the clock reading of the \<open>except\<close> branch
  plus 30 days (the two readings are at most 30 days less an hour and two seconds
  apart). The sums are the code's float sums; for a clock reading between 2004 and the
  end of 2037 they are the exact sums.
\<close>

theorem end_date_normalisation:
  "(parse_end_timestamp D s = Some t \<and> fadd now 3600 < t
      \<longrightarrow> normalize_end_date D now0 now s = t)
   \<and> (parse_end_timestamp D s = Some t \<and> t \<le> fadd now 3600
      \<longrightarrow> normalize_end_date D now0 now s = fadd (fadd now (30 * 24 * 3600)) 3600)
   \<and> (parse_end_timestamp D s = None \<and> 0 \<le> now0 \<and> now0 \<le> now \<and> now \<le> now0 + 2588398
        \<and> now < 2 ^ 52
      \<longrightarrow> normalize_end_date D now0 now s = fadd now0 (30 * 24 * 3600))
   \<and> (clock_reading now \<and> now + 2595600 < 2 ^ 31
      \<longrightarrow> fadd now 3600 = now + 3600
        \<and> fadd now (30 * 24 * 3600) = now + 30 * 24 * 3600
        \<and> fadd (fadd now (30 * 24 * 3600)) 3600 = now + 30 * 24 * 3600 + 3600)"
proof (intro conjI impI)
  assume "parse_end_timestamp D s = Some t \<and> fadd now 3600 < t"
  then show "normalize_end_date D now0 now s = t"
    by (simp add: normalize_end_date_def)
next
  assume "parse_end_timestamp D s = Some t \<and> t \<le> fadd now 3600"
  then show "normalize_end_date D now0 now s = fadd (fadd now (30 * 24 * 3600)) 3600"
    by (simp add: normalize_end_date_def)
next
  assume a: "parse_end_timestamp D s = None \<and> 0 \<le> now0 \<and> now0 \<le> now \<and> now \<le> now0 + 2588398
        \<and> now < 2 ^ 52"
  then have "fadd now 3600 < fadd now0 2592000"
    by (intro default_after_buffer) simp_all
  with a show "normalize_end_date D now0 now s = fadd now0 (30 * 24 * 3600)"
    by (simp add: normalize_end_date_def)
next
  assume a: "clock_reading now \<and> now + 2595600 < 2 ^ 31"
  have c: "clock_reading now" using a by simp
  have "2 ^ 30 \<le> now" using c unfolding clock_reading_def by blast
  then have n0: "0 \<le> now" by simp
  from a n0 have b1: "now + of_int 3600 < 2 ^ 31" and b2: "now + of_int 2592000 < 2 ^ 31" by simp_all
  show "fadd now 3600 = now + 3600"
    using clock_reading_add(1) [OF c _ b1] by simp
  have s2: "fadd now 2592000 = now + 2592000"
    using clock_reading_add(1) [OF c _ b2] by simp
  then show "fadd now (30 * 24 * 3600) = now + 30 * 24 * 3600" by simp
  have c2: "clock_reading (now + 2592000)"
    using clock_reading_add(2) [OF c _ b2] by simp
  have b3: "now + 2592000 + of_int 3600 < 2 ^ 31" using a by simp
  have "fadd (now + 2592000) 3600 = now + 2592000 + 3600"
    using clock_reading_add(1) [OF c2 _ b3] by simp
  with s2 show "fadd (fadd now (30 * 24 * 3600)) 3600 = now + 30 * 24 * 3600 + 3600" by simp
qed


theorem end_date_normalisation_witness:
  "normalize_end_date example_datelib 1700000000 1700000000 (PStr (lit ''March 5, 2027''))
     = 1804291199
   \<and> normalize_end_date example_datelib 1900000000 1900000000 (PStr (lit ''March 5, 2027''))
     = 1900000000 + 30 * 24 * 3600 + 3600
   \<and> normalize_end_date example_datelib 1700000000 1700000000 PNone
     = 1700000000 + 30 * 24 * 3600"
proof -
  have p: "parse_end_timestamp example_datelib (PStr (lit ''March 5, 2027'')) = Some 1804291199"
    by (simp add: parse_end_timestamp_def example_datelib_def)
  have n: "parse_end_timestamp example_datelib PNone = None"
    by (simp add: parse_end_timestamp_def example_datelib_def)
  have c1: "clock_reading 1700000000" by (simp add: clock_reading_def)
  have c2: "clock_reading 1900000000" by (simp add: clock_reading_def)
  note A = end_date_normalisation [of example_datelib "PStr (lit ''March 5, 2027'')" 1804291199
      1700000000 1700000000]
  note B = end_date_normalisation [of example_datelib "PStr (lit ''March 5, 2027'')" 1804291199
      1900000000 1900000000]
  note C = end_date_normalisation [of example_datelib PNone 0 1700000000 1700000000]
  have ha: "clock_reading 1700000000 \<and> (1700000000::rat) + 2595600 < 2 ^ 31" using c1 by simp
  have hb: "clock_reading 1900000000 \<and> (1900000000::rat) + 2595600 < 2 ^ 31" using c2 by simp
  have a4: "fadd 1700000000 3600 = 1700000000 + 3600"
    and a5: "fadd 1700000000 (30 * 24 * 3600) = 1700000000 + 30 * 24 * 3600"
    using A ha by blast+
  have b4: "fadd 1900000000 3600 = 1900000000 + 3600"
    and b6: "fadd (fadd 1900000000 (30 * 24 * 3600)) 3600 = 1900000000 + 30 * 24 * 3600 + 3600"
    using B hb by blast+
  have h1: "parse_end_timestamp example_datelib (PStr (lit ''March 5, 2027'')) = Some 1804291199
      \<and> fadd 1700000000 3600 < 1804291199"
    using p a4 by simp
  have r1: "normalize_end_date example_datelib 1700000000 1700000000 (PStr (lit ''March 5, 2027''))
     = 1804291199"
    using A h1 by blast
  have h2: "parse_end_timestamp example_datelib (PStr (lit ''March 5, 2027'')) = Some 1804291199
      \<and> 1804291199 \<le> fadd 1900000000 3600"
    using p b4 by simp
  have "normalize_end_date example_datelib 1900000000 1900000000 (PStr (lit ''March 5, 2027''))
     = fadd (fadd 1900000000 (30 * 24 * 3600)) 3600"
    using B h2 by blast
  then have r2: "normalize_end_date example_datelib 1900000000 1900000000 (PStr (lit ''March 5, 2027''))
     = 1900000000 + 30 * 24 * 3600 + 3600"
    using b6 by (simp only:)
  have h3: "parse_end_timestamp example_datelib PNone = None \<and> (0::rat) \<le> 1700000000
      \<and> (1700000000::rat) \<le> 1700000000 \<and> (1700000000::rat) \<le> 1700000000 + 2588398
      \<and> (1700000000::rat) < 2 ^ 52"
    using n by simp
  have "normalize_end_date example_datelib 1700000000 1700000000 PNone
     = fadd 1700000000 (30 * 24 * 3600)"
    using C h3 by blast
  then have r3: "normalize_end_date example_datelib 1700000000 1700000000 PNone
     = 1700000000 + 30 * 24 * 3600"
    using a5 by (simp only:)
  show ?thesis using r1 r2 r3 by blast
qed

section \<open>Properties of the sealing poll\<close>

declare poll_for_seal.simps [simp del]













section \<open>The vegetation loss in the create transaction\<close>

























section \<open>Properties of the retry loop\<close>

declare get_proposal_loop.simps [simp del]

lemma bounded_allD: "\<forall>j<k. P j \<Longrightarrow> j < k \<Longrightarrow> P j"
  by blast

lemma loop_step:
  "attempt < 3 \<Longrightarrow>
   get_proposal_loop L execute pid attempt d =
     (case execute attempt of
        Inr (Some v) \<Rightarrow> (parse_proposal_result L v (Some pid), [ExecuteScript])
      | Inr None \<Rightarrow> (None, [ExecuteScript])
      | Inl m \<Rightarrow>
          if rate_limited m \<and> attempt < 2
          then apsnd (\<lambda>ev. ExecuteScript # Sleep d # ev)
                 (get_proposal_loop L execute pid (Suc attempt) (d * 2))
          else (None, [ExecuteScript]))"
  by (subst get_proposal_loop.simps) (simp split: sum.splits option.splits)

lemma loop_2:
  "get_proposal_loop L execute pid 2 d =
     ((case execute 2 of Inr (Some v) \<Rightarrow> parse_proposal_result L v (Some pid) | _ \<Rightarrow> None),
      [ExecuteScript])"
  by (simp add: loop_step split: sum.splits option.splits)

lemma loop_1:
  "get_proposal_loop L execute pid (Suc 0) d =
     (case execute 1 of
        Inr (Some v) \<Rightarrow> (parse_proposal_result L v (Some pid), [ExecuteScript])
      | Inr None \<Rightarrow> (None, [ExecuteScript])
      | Inl m \<Rightarrow>
          if rate_limited m
          then ((case execute 2 of Inr (Some v) \<Rightarrow> parse_proposal_result L v (Some pid) | _ \<Rightarrow> None),
                [ExecuteScript, Sleep d, ExecuteScript])
          else (None, [ExecuteScript]))"
  using loop_2 [of L execute pid "d * 2"]
  by (simp add: loop_step numeral_2_eq_2 split: sum.splits option.splits)

lemma loop_0:
  "get_proposal L execute pid =
     (case execute 0 of
        Inr (Some v) \<Rightarrow> (parse_proposal_result L v (Some pid), [ExecuteScript])
      | Inr None \<Rightarrow> (None, [ExecuteScript])
      | Inl m \<Rightarrow>
          if rate_limited m
          then apsnd (\<lambda>ev. ExecuteScript # Sleep 2 # ev) (get_proposal_loop L execute pid (Suc 0) 4)
          else (None, [ExecuteScript]))"
  by (simp add: get_proposal_def loop_step split: sum.splits option.splits)

text \<open>
  C7. \<open>get_proposal\<close> makes at most three attempts, with sleeps of 2 and then 4 seconds
  between them. Three rate-limit errors use the whole schedule and give \<open>None\<close>. An
  error without the marker at attempt \<open>k\<close> (after \<open>k\<close> rate-limit errors) gives \<open>None\<close> at
  once: the run ends with that attempt. A result at attempt \<open>k\<close> ends the run as well.
\<close>

theorem rate_limit_retry:
  "prefix (snd (get_proposal L execute pid)) retry_schedule
   \<and> ((\<forall>j<3. \<exists>m. execute j = Inl m \<and> rate_limited m)
      \<longrightarrow> get_proposal L execute pid = (None, retry_schedule))
   \<and> (k < 3 \<and> (\<forall>j<k. \<exists>m. execute j = Inl m \<and> rate_limited m)
        \<and> execute k = Inl msg \<and> \<not> rate_limited msg
      \<longrightarrow> get_proposal L execute pid = (None, take (2 * k + 1) retry_schedule))
   \<and> (k < 3 \<and> (\<forall>j<k. \<exists>m. execute j = Inl m \<and> rate_limited m)
        \<and> execute k = Inr res
      \<longrightarrow> get_proposal L execute pid =
            ((case res of Some v \<Rightarrow> parse_proposal_result L v (Some pid) | None \<Rightarrow> None),
             take (2 * k + 1) retry_schedule))"
proof (intro conjI impI)
  show "prefix (snd (get_proposal L execute pid)) retry_schedule"
    by (simp add: loop_0 loop_1 retry_schedule_def split: sum.splits option.splits)
next
  assume a: "\<forall>j<3. \<exists>m. execute j = Inl m \<and> rate_limited m"
  obtain m0 m1 m2 where
    "execute 0 = Inl m0" "rate_limited m0" "execute 1 = Inl m1" "rate_limited m1"
    "execute 2 = Inl m2" "rate_limited m2"
    using bounded_allD [OF a, of 0] bounded_allD [OF a, of 1] bounded_allD [OF a, of 2]
    by auto
  then show "get_proposal L execute pid = (None, retry_schedule)"
    by (simp add: loop_0 loop_1 retry_schedule_def)
next
  assume a: "k < 3 \<and> (\<forall>j<k. \<exists>m. execute j = Inl m \<and> rate_limited m)
        \<and> execute k = Inl msg \<and> \<not> rate_limited msg"
  then consider "k = 0" | "k = 1" | "k = 2" by linarith
  then show "get_proposal L execute pid = (None, take (2 * k + 1) retry_schedule)"
  proof cases
    case 1
    with a show ?thesis by (simp add: loop_0 retry_schedule_def)
  next
    case 2
    from a have all: "\<forall>j<k. \<exists>m. execute j = Inl m \<and> rate_limited m" by blast
    obtain m0 where "execute 0 = Inl m0" "rate_limited m0"
      using bounded_allD [OF all, of 0] 2 by auto
    with a 2 show ?thesis by (simp add: loop_0 loop_1 retry_schedule_def)
  next
    case 3
    from a have all: "\<forall>j<k. \<exists>m. execute j = Inl m \<and> rate_limited m" by blast
    obtain m0 where m0: "execute 0 = Inl m0" "rate_limited m0"
      using bounded_allD [OF all, of 0] 3 by auto
    have "\<exists>m. execute 1 = Inl m \<and> rate_limited m"
      using bounded_allD [OF all, of 1] 3 by auto
    then obtain m1 where "execute 1 = Inl m1" "rate_limited m1" by auto
    with a 3 m0 show ?thesis by (simp add: loop_0 loop_1 retry_schedule_def)
  qed
next
  assume a: "k < 3 \<and> (\<forall>j<k. \<exists>m. execute j = Inl m \<and> rate_limited m)
        \<and> execute k = Inr res"
  then consider "k = 0" | "k = 1" | "k = 2" by linarith
  then show "get_proposal L execute pid =
            ((case res of Some v \<Rightarrow> parse_proposal_result L v (Some pid) | None \<Rightarrow> None),
             take (2 * k + 1) retry_schedule)"
  proof cases
    case 1
    with a show ?thesis by (simp add: loop_0 retry_schedule_def split: option.splits)
  next
    case 2
    from a have all: "\<forall>j<k. \<exists>m. execute j = Inl m \<and> rate_limited m" by blast
    obtain m0 where "execute 0 = Inl m0" "rate_limited m0"
      using bounded_allD [OF all, of 0] 2 by auto
    with a 2 show ?thesis by (simp add: loop_0 loop_1 retry_schedule_def split: option.splits)
  next
    case 3
    from a have all: "\<forall>j<k. \<exists>m. execute j = Inl m \<and> rate_limited m" by blast
    obtain m0 where m0: "execute 0 = Inl m0" "rate_limited m0"
      using bounded_allD [OF all, of 0] 3 by auto
    have "\<exists>m. execute 1 = Inl m \<and> rate_limited m"
      using bounded_allD [OF all, of 1] 3 by auto
    then obtain m1 where "execute 1 = Inl m1" "rate_limited m1" by auto
    with a 3 m0 show ?thesis by (simp add: loop_0 loop_1 retry_schedule_def split: option.splits)
  qed
qed


lemma marker_found: "rate_limited (lit ''Rate Limited by node'')"
  unfolding rate_limited_def sublist_def
  by (rule exI [of _ "[]"], rule exI [of _ "lit '' by node''"]) (simp add: lit_def lower_def)

lemma marker_absent: "\<not> rate_limited (lit ''connection refused'')"
  by (simp add: rate_limited_def lit_def lower_def sublist_code)

theorem rate_limit_retry_witness:
  "get_proposal example_pylib (\<lambda>j. Inl (lit ''Rate Limited by node'')) 5 = (None, retry_schedule)
   \<and> get_proposal example_pylib
        (\<lambda>j. if j = 0 then Inl (lit ''Rate Limited by node'') else Inl (lit ''connection refused'')) 5
      = (None, [ExecuteScript, Sleep 2, ExecuteScript])
   \<and> get_proposal example_pylib
        (\<lambda>j. if j = 0 then Inl (lit ''Rate Limited by node'') else Inr None) 5
      = (None, [ExecuteScript, Sleep 2, ExecuteScript])"
proof -
  note A = rate_limit_retry [of example_pylib "\<lambda>j. Inl (lit ''Rate Limited by node'')" 5 0
      "[]" None]
  have r1: "get_proposal example_pylib (\<lambda>j. Inl (lit ''Rate Limited by node'')) 5
      = (None, retry_schedule)"
    using A marker_found by simp
  note B = rate_limit_retry [of example_pylib
      "\<lambda>j. if j = 0 then Inl (lit ''Rate Limited by node'') else Inl (lit ''connection refused'')"
      5 1 "lit ''connection refused''" None]
  have r2: "get_proposal example_pylib
        (\<lambda>j. if j = 0 then Inl (lit ''Rate Limited by node'') else Inl (lit ''connection refused'')) 5
      = (None, [ExecuteScript, Sleep 2, ExecuteScript])"
    using B marker_found marker_absent by (simp add: retry_schedule_def)
  note C = rate_limit_retry [of example_pylib
      "\<lambda>j. if j = 0 then Inl (lit ''Rate Limited by node'') else Inr None" 5 1 "[]" None]
  have r3: "get_proposal example_pylib
        (\<lambda>j. if j = 0 then Inl (lit ''Rate Limited by node'') else Inr None) 5
      = (None, [ExecuteScript, Sleep 2, ExecuteScript])"
    using C marker_found by (simp add: retry_schedule_def)
  show ?thesis using r1 r2 r3 by blast
qed

section \<open>Properties of the sweep\<close>

lemma tally_total:
  "closed_count (tally out cnt) + skipped_count (tally out cnt) + failed_count (tally out cnt)
     = closed_count cnt + skipped_count cnt + failed_count cnt + 1"
  by (cases out) (simp_all add: tally_def)

lemma sweep_total:
  "sweep L D E t i ids cnt ev = Inr (cnt', ev') \<Longrightarrow>
   closed_count cnt' + skipped_count cnt' + failed_count cnt'
     = closed_count cnt + skipped_count cnt + failed_count cnt + length ids"
proof (induction ids arbitrary: i cnt ev)
  case Nil
  then show ?case by simp
next
  case (Cons pid rest)
  from Cons.prems obtain out where
    out: "process_proposal L D E t i pid = Inr out" and
    rest: "sweep L D E t (Suc i) rest (tally out cnt)
             (if close_issued out then ev @ [CloseProposal pid] else ev) = Inr (cnt', ev')"
    by (auto split: sum.splits)
  from Cons.IH [OF rest] show ?case by (simp add: tally_total)
qed

lemma sweep_completes:
  "\<forall>j<length ids. \<exists>out. process_proposal L D E t (i + j) (ids ! j) = Inr out \<Longrightarrow>
   \<exists>cnt' ev'. sweep L D E t i ids cnt ev = Inr (cnt', ev')"
proof (induction ids arbitrary: i cnt ev)
  case Nil
  then show ?case by simp
next
  case (Cons pid rest)
  from Cons.prems have "\<exists>out. process_proposal L D E t (i + 0) ((pid # rest) ! 0) = Inr out"
    by blast
  then obtain out where out: "process_proposal L D E t i pid = Inr out" by auto
  have "\<forall>j<length rest. \<exists>out. process_proposal L D E t (Suc i + j) (rest ! j) = Inr out"
  proof (intro allI impI)
    fix j assume "j < length rest"
    then have "Suc j < length (pid # rest)" by simp
    with Cons.prems have "\<exists>out. process_proposal L D E t (i + Suc j) ((pid # rest) ! Suc j) = Inr out"
      by blast
    then show "\<exists>out. process_proposal L D E t (Suc i + j) (rest ! j) = Inr out" by simp
  qed
  from Cons.IH [OF this] show ?case using out by simp
qed

lemma process_not_fetched:
  "\<not> truthy (get_proposal_details E i pid) \<Longrightarrow> process_proposal L D E t i pid = Inr FetchFailed"
  by (simp add: process_proposal_def)

lemma process_no_end_date:
  "truthy (get_proposal_details E i pid) \<Longrightarrow> end_date_value (get_proposal_details E i pid) = None \<Longrightarrow>
   process_proposal L D E t i pid = Inr BadStructure \<or> process_proposal L D E t i pid = Inr NoEndDate"
  by (auto simp: process_proposal_def end_date_value_def Let_def split: option.splits if_splits)

lemma process_end_date:
  "truthy (get_proposal_details E i pid) \<Longrightarrow> end_date_value (get_proposal_details E i pid) = Some v \<Longrightarrow>
   py_float L v = Inr x \<Longrightarrow> fromtimestamp_ok D (fdiv x 100000000) \<Longrightarrow> fromtimestamp_ok D t \<Longrightarrow>
   process_proposal L D E t i pid =
     (if t > fdiv x 100000000
      then (if close_proposal E i pid then Inr Closed else Inr CloseFailed)
      else Inr Skipped)"
  by (auto simp: process_proposal_def end_date_value_def Let_def ebind_def
      split: option.splits if_splits)

text \<open>
  C5. Every id of the sweep is counted once: when the sweep ends, closed + skipped +
  failed is the number of ids (and it ends when no iteration raises). An id whose
  details are not fetched, or whose end date is not found, adds one to failed and the
  sweep goes on with the next id. An end date before the current time sends a close
  transaction, which adds one to closed when it succeeds and one to failed when it does
  not. An end date that has not passed adds one to skipped and sends nothing. No
  iteration raises on an end date that is a fixed-point number of the ledger.
\<close>

theorem sweep_accounting:
  "(sweep L D E t i ids cnt ev = Inr (cnt', ev') \<longrightarrow>
      closed_count cnt' + skipped_count cnt' + failed_count cnt'
        = closed_count cnt + skipped_count cnt + failed_count cnt + length ids)
   \<and> (close_all_active_proposals L D E t ids = Inr (Some (cnt', ev')) \<longrightarrow>
      closed_count cnt' + skipped_count cnt' + failed_count cnt' = length ids)
   \<and> ((\<forall>j<length ids. \<exists>out. process_proposal L D E t (i + j) (ids ! j) = Inr out) \<longrightarrow>
      (\<exists>c e. sweep L D E t i ids cnt ev = Inr (c, e)))
   \<and> (\<not> truthy (get_proposal_details E i pid) \<or> end_date_value (get_proposal_details E i pid) = None
      \<longrightarrow> sweep L D E t i (pid # rest) cnt ev
          = sweep L D E t (Suc i) rest (cnt\<lparr>failed_count := failed_count cnt + 1\<rparr>) ev)
   \<and> (truthy (get_proposal_details E i pid) \<and> end_date_value (get_proposal_details E i pid) = Some v
        \<and> py_float L v = Inr x \<and> fromtimestamp_ok D (fdiv x 100000000) \<and> fromtimestamp_ok D t
        \<and> t > fdiv x 100000000
      \<longrightarrow> sweep L D E t i (pid # rest) cnt ev
          = sweep L D E t (Suc i) rest
              (if close_proposal E i pid then cnt\<lparr>closed_count := closed_count cnt + 1\<rparr>
               else cnt\<lparr>failed_count := failed_count cnt + 1\<rparr>)
              (ev @ [CloseProposal pid]))
   \<and> (truthy (get_proposal_details E i pid) \<and> end_date_value (get_proposal_details E i pid) = Some v
        \<and> py_float L v = Inr x \<and> fromtimestamp_ok D (fdiv x 100000000) \<and> fromtimestamp_ok D t
        \<and> t \<le> fdiv x 100000000
      \<longrightarrow> sweep L D E t i (pid # rest) cnt ev
          = sweep L D E t (Suc i) rest (cnt\<lparr>skipped_count := skipped_count cnt + 1\<rparr>) ev)
   \<and> ((\<forall>u. end_date_value (get_proposal_details E i pid) = Some u
             \<longrightarrow> (\<exists>n. u = PInt n \<and> 0 \<le> n \<and> n < 2 ^ 64))
        \<and> (\<forall>y. fromtimestamp_ok D y)
      \<longrightarrow> (\<exists>out. process_proposal L D E t i pid = Inr out))"
proof (intro conjI impI)
  assume "sweep L D E t i ids cnt ev = Inr (cnt', ev')"
  then show "closed_count cnt' + skipped_count cnt' + failed_count cnt'
        = closed_count cnt + skipped_count cnt + failed_count cnt + length ids"
    by (rule sweep_total)
next
  assume a: "close_all_active_proposals L D E t ids = Inr (Some (cnt', ev'))"
  then have "sweep L D E t 0 ids \<lparr>closed_count = 0, skipped_count = 0, failed_count = 0\<rparr> []
      = Inr (cnt', ev')"
    by (auto simp: close_all_active_proposals_def ebind_def split: if_splits sum.splits)
  from sweep_total [OF this]
  show "closed_count cnt' + skipped_count cnt' + failed_count cnt' = length ids" by simp
next
  assume "\<forall>j<length ids. \<exists>out. process_proposal L D E t (i + j) (ids ! j) = Inr out"
  then show "\<exists>c e. sweep L D E t i ids cnt ev = Inr (c, e)" by (rule sweep_completes)
next
  assume a: "\<not> truthy (get_proposal_details E i pid) \<or> end_date_value (get_proposal_details E i pid) = None"
  have "process_proposal L D E t i pid = Inr FetchFailed \<or> process_proposal L D E t i pid = Inr BadStructure
      \<or> process_proposal L D E t i pid = Inr NoEndDate"
    using a process_not_fetched [of E i pid L D t] process_no_end_date [of E i pid L D t] by blast
  then show "sweep L D E t i (pid # rest) cnt ev
          = sweep L D E t (Suc i) rest (cnt\<lparr>failed_count := failed_count cnt + 1\<rparr>) ev"
    by (auto simp: tally_def close_issued_def)
next
  assume a: "truthy (get_proposal_details E i pid) \<and> end_date_value (get_proposal_details E i pid) = Some v
        \<and> py_float L v = Inr x \<and> fromtimestamp_ok D (fdiv x 100000000) \<and> fromtimestamp_ok D t
        \<and> t > fdiv x 100000000"
  then have "process_proposal L D E t i pid = (if close_proposal E i pid then Inr Closed else Inr CloseFailed)"
    using process_end_date [of E i pid v L x D t] by simp
  then show "sweep L D E t i (pid # rest) cnt ev
          = sweep L D E t (Suc i) rest
              (if close_proposal E i pid then cnt\<lparr>closed_count := closed_count cnt + 1\<rparr>
               else cnt\<lparr>failed_count := failed_count cnt + 1\<rparr>)
              (ev @ [CloseProposal pid])"
    by (simp add: tally_def close_issued_def)
next
  assume a: "truthy (get_proposal_details E i pid) \<and> end_date_value (get_proposal_details E i pid) = Some v
        \<and> py_float L v = Inr x \<and> fromtimestamp_ok D (fdiv x 100000000) \<and> fromtimestamp_ok D t
        \<and> t \<le> fdiv x 100000000"
  then have "process_proposal L D E t i pid = Inr Skipped"
    using process_end_date [of E i pid v L x D t] by simp
  then show "sweep L D E t i (pid # rest) cnt ev
          = sweep L D E t (Suc i) rest (cnt\<lparr>skipped_count := skipped_count cnt + 1\<rparr>) ev"
    by (simp add: tally_def close_issued_def)
next
  assume a: "(\<forall>u. end_date_value (get_proposal_details E i pid) = Some u
             \<longrightarrow> (\<exists>n. u = PInt n \<and> 0 \<le> n \<and> n < 2 ^ 64))
        \<and> (\<forall>y. fromtimestamp_ok D y)"
  show "\<exists>out. process_proposal L D E t i pid = Inr out"
  proof (cases "truthy (get_proposal_details E i pid)")
    case False
    then show ?thesis using process_not_fetched [of E i pid L D t] by blast
  next
    case True
    show ?thesis
    proof (cases "end_date_value (get_proposal_details E i pid)")
      case None
      then show ?thesis using process_no_end_date [OF True, of L D t] by blast
    next
      case (Some u)
      with a obtain n where n: "u = PInt n" "0 \<le> n" "n < 2 ^ 64" by blast
      have "\<bar>n\<bar> < 2 ^ 1024 - 2 ^ 970" using n(2,3) by simp
      then have "py_float L u = Inr (fl (of_int n))" using n(1) by simp
      then show ?thesis
        using process_end_date [OF True Some, of L "fl (of_int n)" D t] a by auto
    qed
  qed
qed

lemma fl_16e16: "fl 160000000000000000 = 160000000000000000"
  using fl_eqI [of 5 160000000000000000 5000000000000000] by (simp add: pow2_def)

lemma fl_18e16: "fl 180000000000000000 = 180000000000000000"
  using fl_eqI [of 5 180000000000000000 5625000000000000] by (simp add: pow2_def)

lemma fl_16e8: "fl 1600000000 = 1600000000"
  using fl_of_small_int [of "- 22" 1600000000] by (simp add: pow2_def)

lemma fl_18e8: "fl 1800000000 = 1800000000"
  using fl_of_small_int [of "- 22" 1800000000] by (simp add: pow2_def)

lemma end_date_value_example: "end_date_value (proposal_ending raw) = Some (PInt raw)"
  by (simp add: end_date_value_def proposal_ending_def proposal_struct_of_def)

theorem sweep_accounting_witness:
  "close_all_active_proposals example_pylib example_datelib example_sweep_env 1700000000 [1, 2, 3]
     = Inr (Some (\<lparr>closed_count = 1, skipped_count = 1, failed_count = 1\<rparr>, [CloseProposal 1]))"
proof -
  let ?L = example_pylib and ?D = example_datelib and ?E = example_sweep_env
  let ?z = "\<lparr>closed_count = 0, skipped_count = 0, failed_count = 0\<rparr>"
  have d1: "get_proposal_details ?E i 1 = proposal_ending 160000000000000000" for i
    by (simp add: example_sweep_env_def)
  have d2: "get_proposal_details ?E i 2 = proposal_ending 180000000000000000" for i
    by (simp add: example_sweep_env_def)
  have d3: "get_proposal_details ?E i 3 = PNone" for i
    by (simp add: example_sweep_env_def)
  have tr: "truthy (proposal_ending raw)" for raw by (simp add: proposal_ending_def)
  have ok: "fromtimestamp_ok ?D x" for x by (simp add: example_datelib_def)
  have cl: "close_proposal ?E i pid" for i pid by (simp add: example_sweep_env_def)
  have f1: "py_float ?L (PInt 160000000000000000) = Inr 160000000000000000"
    using fl_16e16 by simp
  have f2: "py_float ?L (PInt 180000000000000000) = Inr 180000000000000000"
    using fl_18e16 by simp
  have q1: "fdiv 160000000000000000 100000000 = 1600000000"
    using fl_16e8 by (simp add: fdiv_def)
  have q2: "fdiv 180000000000000000 100000000 = 1800000000"
    using fl_18e8 by (simp add: fdiv_def)
  note A = sweep_accounting [of ?L ?D ?E 1700000000 0 "[]" ?z "[]" ?z "[]" 1
      "[2, 3]" "PInt 160000000000000000" 160000000000000000]
  have h1: "truthy (get_proposal_details ?E 0 1)
      \<and> end_date_value (get_proposal_details ?E 0 1) = Some (PInt 160000000000000000)
      \<and> py_float ?L (PInt 160000000000000000) = Inr 160000000000000000
      \<and> fromtimestamp_ok ?D (fdiv 160000000000000000 100000000) \<and> fromtimestamp_ok ?D 1700000000
      \<and> 1700000000 > fdiv 160000000000000000 100000000"
    by (simp add: d1 tr end_date_value_example fl_16e16 q1 ok)
  from A h1 have "sweep ?L ?D ?E 1700000000 0 [1, 2, 3] ?z []
      = sweep ?L ?D ?E 1700000000 (Suc 0) [2, 3]
          (if close_proposal ?E 0 1 then ?z\<lparr>closed_count := closed_count ?z + 1\<rparr>
           else ?z\<lparr>failed_count := failed_count ?z + 1\<rparr>)
          ([] @ [CloseProposal 1])"
    by blast
  then have s1: "sweep ?L ?D ?E 1700000000 0 [1, 2, 3] ?z []
      = sweep ?L ?D ?E 1700000000 (Suc 0) [2, 3]
          \<lparr>closed_count = 1, skipped_count = 0, failed_count = 0\<rparr> [CloseProposal 1]"
    by (simp del: sweep.simps add: cl)
  let ?c1 = "\<lparr>closed_count = 1, skipped_count = 0, failed_count = 0\<rparr>"
  note B = sweep_accounting [of ?L ?D ?E 1700000000 "Suc 0" "[]" ?c1 "[CloseProposal 1]" ?z "[]" 2
      "[3]" "PInt 180000000000000000" 180000000000000000]
  have h2: "truthy (get_proposal_details ?E (Suc 0) 2)
      \<and> end_date_value (get_proposal_details ?E (Suc 0) 2) = Some (PInt 180000000000000000)
      \<and> py_float ?L (PInt 180000000000000000) = Inr 180000000000000000
      \<and> fromtimestamp_ok ?D (fdiv 180000000000000000 100000000) \<and> fromtimestamp_ok ?D 1700000000
      \<and> 1700000000 \<le> fdiv 180000000000000000 100000000"
    by (simp add: d2 tr end_date_value_example fl_18e16 q2 ok)
  from B h2 have "sweep ?L ?D ?E 1700000000 (Suc 0) [2, 3] ?c1 [CloseProposal 1]
      = sweep ?L ?D ?E 1700000000 (Suc (Suc 0)) [3]
          (?c1\<lparr>skipped_count := skipped_count ?c1 + 1\<rparr>) [CloseProposal 1]"
    by blast
  then have s2: "sweep ?L ?D ?E 1700000000 (Suc 0) [2, 3] ?c1 [CloseProposal 1]
      = sweep ?L ?D ?E 1700000000 (Suc (Suc 0)) [3]
          \<lparr>closed_count = 1, skipped_count = 1, failed_count = 0\<rparr> [CloseProposal 1]"
    by (simp del: sweep.simps)
  let ?c2 = "\<lparr>closed_count = 1, skipped_count = 1, failed_count = 0\<rparr>"
  note C = sweep_accounting [of ?L ?D ?E 1700000000 "Suc (Suc 0)" "[]" ?c2 "[CloseProposal 1]" ?z "[]" 3
      "[]" PNone 0]
  have h3: "\<not> truthy (get_proposal_details ?E (Suc (Suc 0)) 3)
      \<or> end_date_value (get_proposal_details ?E (Suc (Suc 0)) 3) = None"
    by (simp add: d3)
  from C h3 have "sweep ?L ?D ?E 1700000000 (Suc (Suc 0)) [3] ?c2 [CloseProposal 1]
      = sweep ?L ?D ?E 1700000000 (Suc (Suc (Suc 0))) []
          (?c2\<lparr>failed_count := failed_count ?c2 + 1\<rparr>) [CloseProposal 1]"
    by blast
  then have s3: "sweep ?L ?D ?E 1700000000 (Suc (Suc 0)) [3] ?c2 [CloseProposal 1]
      = Inr (\<lparr>closed_count = 1, skipped_count = 1, failed_count = 1\<rparr>, [CloseProposal 1])"
    by simp
  have total: "sweep ?L ?D ?E 1700000000 0 [1, 2, 3] ?z []
      = Inr (\<lparr>closed_count = 1, skipped_count = 1, failed_count = 1\<rparr>, [CloseProposal 1])"
    by (simp only: s1 s2 s3)
  show ?thesis
    unfolding close_all_active_proposals_def total by (simp add: ebind_def)
qed

section \<open>Properties of decoding\<close>

lemma uint_ok_conv:
  "uint_ok v \<Longrightarrow> \<exists>n. uint64_to_int L v = Inr n \<and> (v = PNone \<longrightarrow> n = 0)"
  by (cases v) (simp_all add: uint_ok_def uint64_to_int_def)

lemma ufix_ok_conv:
  "ufix_ok v \<Longrightarrow> \<exists>x. ufix64_to_float L v = Inr x \<and> (v = PNone \<longrightarrow> x = 0)"
  by (cases v) (simp_all add: ufix_ok_def ufix64_to_float_def ebind_def)

lemma get_field_value_None [simp]: "get_field_value PNone k = PNone"
  by (simp add: get_field_value_def)

lemma status_ok_conv:
  "status_ok v \<Longrightarrow> \<exists>st. status_of L v = Inr st \<and> (v = PNone \<longrightarrow> st = lit ''active'')"
proof -
  assume ok: "status_ok v"
  define w where "w = (case value_attr v of Some u \<Rightarrow> u
     | None \<Rightarrow> if rawValue_attr v then get_field_value v ''rawValue'' else v)"
  have "uint_ok w" using ok by (simp add: status_ok_def w_def split: option.splits if_splits)
  then have "\<exists>n. (if w \<noteq> PNone then py_int L w else Inr 0) = Inr n \<and> (w = PNone \<longrightarrow> n = 0)"
    by (cases w) (simp_all add: uint_ok_def)
  then obtain n where n: "(if w \<noteq> PNone then py_int L w else Inr 0) = Inr n" "w = PNone \<longrightarrow> n = 0"
    by blast
  have "v = PNone \<longrightarrow> w = PNone" by (simp add: w_def)
  with n show ?thesis
    unfolding status_of_def w_def [symmetric] Let_def by (auto simp: ebind_def)
qed

lemma or_empty_None: "py_str L (or_empty PNone) = []"
  by (simp add: or_empty_def)

lemma parse_environmental_ok:
  assumes "list_all (\<lambda>k. ufix_ok (get_field_value e k))
       [''ndviBefore'', ''ndviAfter'', ''pm25Before'', ''pm25After'', ''pm25IncreasePercent'',
        ''vegetationLossPercent'']"
  shows "\<exists>d. parse_environmental_data L e = Inr d
     \<and> (get_field_value e ''ndviBefore'' = PNone \<longrightarrow> ndviBefore d = 0)
     \<and> (get_field_value e ''ndviAfter'' = PNone \<longrightarrow> ndviAfter d = 0)
     \<and> (get_field_value e ''pm25Before'' = PNone \<longrightarrow> pm25Before d = 0)
     \<and> (get_field_value e ''pm25After'' = PNone \<longrightarrow> pm25After d = 0)
     \<and> (get_field_value e ''pm25IncreasePercent'' = PNone \<longrightarrow> pm25IncreasePercent d = 0)
     \<and> (get_field_value e ''vegetationLossPercent'' = PNone \<longrightarrow> vegetationLossPercent d = 0)"
proof -
  from assms obtain a b c d f g where
    "ufix64_to_float L (get_field_value e ''ndviBefore'') = Inr a"
    "get_field_value e ''ndviBefore'' = PNone \<longrightarrow> a = 0"
    "ufix64_to_float L (get_field_value e ''ndviAfter'') = Inr b"
    "get_field_value e ''ndviAfter'' = PNone \<longrightarrow> b = 0"
    "ufix64_to_float L (get_field_value e ''pm25Before'') = Inr c"
    "get_field_value e ''pm25Before'' = PNone \<longrightarrow> c = 0"
    "ufix64_to_float L (get_field_value e ''pm25After'') = Inr d"
    "get_field_value e ''pm25After'' = PNone \<longrightarrow> d = 0"
    "ufix64_to_float L (get_field_value e ''pm25IncreasePercent'') = Inr f"
    "get_field_value e ''pm25IncreasePercent'' = PNone \<longrightarrow> f = 0"
    "ufix64_to_float L (get_field_value e ''vegetationLossPercent'') = Inr g"
    "get_field_value e ''vegetationLossPercent'' = PNone \<longrightarrow> g = 0"
    using ufix_ok_conv [of "get_field_value e ''ndviBefore''" L]
      ufix_ok_conv [of "get_field_value e ''ndviAfter''" L]
      ufix_ok_conv [of "get_field_value e ''pm25Before''" L]
      ufix_ok_conv [of "get_field_value e ''pm25After''" L]
      ufix_ok_conv [of "get_field_value e ''pm25IncreasePercent''" L]
      ufix_ok_conv [of "get_field_value e ''vegetationLossPercent''" L]
    by (auto simp del: get_field_value_None)
  then show ?thesis by (simp add: parse_environmental_data_def ebind_def)
qed

lemma parse_demographics_ok:
  assumes "list_all (\<lambda>k. uint_ok (get_field_value e k))
       [''children'', ''adults'', ''seniors'', ''totalAffectedPopulation'']"
  shows "\<exists>d. parse_demographics L e = Inr d
     \<and> (get_field_value e ''children'' = PNone \<longrightarrow> children d = 0)
     \<and> (get_field_value e ''adults'' = PNone \<longrightarrow> adults d = 0)
     \<and> (get_field_value e ''seniors'' = PNone \<longrightarrow> seniors d = 0)
     \<and> (get_field_value e ''totalAffectedPopulation'' = PNone \<longrightarrow> totalAffectedPopulation d = 0)"
proof -
  from assms obtain a b c d where
    "uint64_to_int L (get_field_value e ''children'') = Inr a"
    "get_field_value e ''children'' = PNone \<longrightarrow> a = 0"
    "uint64_to_int L (get_field_value e ''adults'') = Inr b"
    "get_field_value e ''adults'' = PNone \<longrightarrow> b = 0"
    "uint64_to_int L (get_field_value e ''seniors'') = Inr c"
    "get_field_value e ''seniors'' = PNone \<longrightarrow> c = 0"
    "uint64_to_int L (get_field_value e ''totalAffectedPopulation'') = Inr d"
    "get_field_value e ''totalAffectedPopulation'' = PNone \<longrightarrow> d = 0"
    using uint_ok_conv [of "get_field_value e ''children''" L]
      uint_ok_conv [of "get_field_value e ''adults''" L]
      uint_ok_conv [of "get_field_value e ''seniors''" L]
      uint_ok_conv [of "get_field_value e ''totalAffectedPopulation''" L]
    by (auto simp del: get_field_value_None)
  then show ?thesis by (simp add: parse_demographics_def ebind_def)
qed

lemma py_trunc_0: "py_trunc 0 = 0"
  by (simp add: py_trunc_def)

lemma parse_struct_ok:
  assumes wt: "well_typed s" and idok: "pid_arg = None \<longrightarrow> uint_ok (get_field_value s ''id'')"
  shows "\<exists>r. parse_struct L s pid_arg = Inr r \<and> zero_defaults s r
           \<and> (\<forall>p. pid_arg = Some p \<longrightarrow> proposal_id r = p)
           \<and> (pid_arg = None \<and> get_field_value s ''id'' = PNone \<longrightarrow> proposal_id r = 0)"
proof -
  obtain pid where pid: "(case pid_arg of None \<Rightarrow> uint64_to_int L (get_field_value s ''id'')
      | Some given \<Rightarrow> Inr given) = Inr pid"
    "\<forall>p. pid_arg = Some p \<longrightarrow> pid = p"
    "pid_arg = None \<and> get_field_value s ''id'' = PNone \<longrightarrow> pid = 0"
    using idok uint_ok_conv [of "get_field_value s ''id''" L] by (cases pid_arg) auto
  obtain yes where yes: "uint64_to_int L (get_field_value s ''yesVotes'') = Inr yes"
    "get_field_value s ''yesVotes'' = PNone \<longrightarrow> yes = 0"
    using wt uint_ok_conv [of "get_field_value s ''yesVotes''" L] by (auto simp: well_typed_def)
  obtain no where no: "uint64_to_int L (get_field_value s ''noVotes'') = Inr no"
    "get_field_value s ''noVotes'' = PNone \<longrightarrow> no = 0"
    using wt uint_ok_conv [of "get_field_value s ''noVotes''" L] by (auto simp: well_typed_def)
  obtain ed where ed: "ufix64_to_float L (get_field_value s ''endDate'') = Inr ed"
    "get_field_value s ''endDate'' = PNone \<longrightarrow> ed = 0"
    using wt ufix_ok_conv [of "get_field_value s ''endDate''" L] by (auto simp: well_typed_def)
  obtain st where st: "status_of L (get_field_value s ''status'') = Inr st"
    "get_field_value s ''status'' = PNone \<longrightarrow> st = lit ''active''"
    using wt status_ok_conv [of "get_field_value s ''status''" L] by (auto simp: well_typed_def)
  have "list_all (\<lambda>k. ufix_ok (get_field_value (get_field_value s ''environmentalData'') k))
       [''ndviBefore'', ''ndviAfter'', ''pm25Before'', ''pm25After'', ''pm25IncreasePercent'',
        ''vegetationLossPercent'']"
    using wt unfolding well_typed_def by blast
  from parse_environmental_ok [OF this, of L] obtain env where
    env: "parse_environmental_data L (get_field_value s ''environmentalData'') = Inr env"
    and envz: "let e = get_field_value s ''environmentalData''; d = env in
        (get_field_value e ''ndviBefore'' = PNone \<longrightarrow> ndviBefore d = 0) \<and>
        (get_field_value e ''ndviAfter'' = PNone \<longrightarrow> ndviAfter d = 0) \<and>
        (get_field_value e ''pm25Before'' = PNone \<longrightarrow> pm25Before d = 0) \<and>
        (get_field_value e ''pm25After'' = PNone \<longrightarrow> pm25After d = 0) \<and>
        (get_field_value e ''pm25IncreasePercent'' = PNone \<longrightarrow> pm25IncreasePercent d = 0) \<and>
        (get_field_value e ''vegetationLossPercent'' = PNone \<longrightarrow> vegetationLossPercent d = 0)"
    unfolding Let_def by blast
  have "list_all (\<lambda>k. uint_ok (get_field_value (get_field_value s ''demographics'') k))
       [''children'', ''adults'', ''seniors'', ''totalAffectedPopulation'']"
    using wt unfolding well_typed_def by blast
  from parse_demographics_ok [OF this, of L] obtain demo where
    demo: "parse_demographics L (get_field_value s ''demographics'') = Inr demo"
    and demoz: "let e = get_field_value s ''demographics''; d = demo in
        (get_field_value e ''children'' = PNone \<longrightarrow> children d = 0) \<and>
        (get_field_value e ''adults'' = PNone \<longrightarrow> adults d = 0) \<and>
        (get_field_value e ''seniors'' = PNone \<longrightarrow> seniors d = 0) \<and>
        (get_field_value e ''totalAffectedPopulation'' = PNone \<longrightarrow> totalAffectedPopulation d = 0)"
    unfolding Let_def by blast
  let ?r = "\<lparr>proposal_id = pid,
      parkName = py_str L (or_empty (get_field_value s ''parkName'')),
      parkId = py_str L (or_empty (get_field_value s ''parkId'')),
      description = py_str L (or_empty (get_field_value s ''description'')),
      yesVotes = yes, noVotes = no, endDate = py_trunc ed,
      creator = py_str L (or_empty (get_field_value s ''creator'')),
      proposal_status = st, environmentalData = env, demographics = demo\<rparr>"
  have r: "parse_struct L s pid_arg = Inr ?r"
    unfolding parse_struct_def pid(1) yes(1) no(1) ed(1) st(1) env demo ebind_Inr Let_def ..
  have z: "zero_defaults s ?r"
    unfolding zero_defaults_def using yes(2) no(2) ed(2) st(2) envz demoz
    by (simp add: or_empty_None py_trunc_0)
  show ?thesis using r z pid(2,3) by simp
qed

lemma get_field_value_missing:
  "fields_attr s = None \<Longrightarrow> get_field_value s k = PNone"
  "fields_attr s = Some fd \<Longrightarrow> map_of fd k = None \<Longrightarrow> get_field_value s k = PNone"
  "fields_attr s = Some fd \<Longrightarrow> map_of fd k = Some PNone \<Longrightarrow> get_field_value s k = PNone"
  "fields_attr s = Some fd \<Longrightarrow> map_of fd k = Some f \<Longrightarrow> value_attr f = Some PNone \<Longrightarrow>
     get_field_value s k = PNone"
  by (auto simp: get_field_value_def split: pyval.splits)

lemma well_typed_no_fields: "fields_attr s = None \<or> fields_attr s = Some [] \<Longrightarrow> well_typed s"
  by (auto simp: well_typed_def get_field_value_def uint_ok_def ufix_ok_def status_ok_def)

text \<open>
  C8. A struct of which any fields are missing decodes into a record, not into a
  failure, when the fields that are present hold what the contract declares; a missing
  field, a field that is \<open>None\<close> and an empty optional all read as \<open>None\<close>, and the record
  has 0, 0.0, the empty string or \<open>active\<close> in their place. The same holds for the
  fields of the nested \<open>environmentalData\<close> and \<open>demographics\<close> structs and when those
  structs are missing themselves. A struct without any field is such a struct.
\<close>

theorem tolerant_decoding:
  "(truthy result \<and> value_attr result \<noteq> Some PNone \<and> truthy (proposal_struct_of result)
      \<and> well_typed (proposal_struct_of result)
      \<and> (pid_arg = None \<longrightarrow> uint_ok (get_field_value (proposal_struct_of result) ''id''))
     \<longrightarrow> (\<exists>r. parse_proposal_result L result pid_arg = Some r
            \<and> zero_defaults (proposal_struct_of result) r))
   \<and> (fields_attr s = None \<longrightarrow> get_field_value s k = PNone)
   \<and> (fields_attr s = Some fd
        \<and> (map_of fd k = None \<or> map_of fd k = Some PNone
            \<or> (\<exists>f. map_of fd k = Some f \<and> value_attr f = Some PNone))
      \<longrightarrow> get_field_value s k = PNone)
   \<and> (fields_attr s = None \<or> fields_attr s = Some [] \<longrightarrow> well_typed s)"
proof (intro conjI impI)
  assume a: "truthy result \<and> value_attr result \<noteq> Some PNone \<and> truthy (proposal_struct_of result)
      \<and> well_typed (proposal_struct_of result)
      \<and> (pid_arg = None \<longrightarrow> uint_ok (get_field_value (proposal_struct_of result) ''id''))"
  then obtain r where r: "parse_struct L (proposal_struct_of result) pid_arg = Inr r"
    "zero_defaults (proposal_struct_of result) r"
    using parse_struct_ok [of "proposal_struct_of result" pid_arg L] by blast
  have "parse_proposal_result L result pid_arg = Some r"
    using a r(1) by (simp add: parse_proposal_result_def)
  with r(2) show "\<exists>r. parse_proposal_result L result pid_arg = Some r
            \<and> zero_defaults (proposal_struct_of result) r" by blast
next
  assume "fields_attr s = None"
  then show "get_field_value s k = PNone" by (rule get_field_value_missing)
next
  assume "fields_attr s = Some fd
        \<and> (map_of fd k = None \<or> map_of fd k = Some PNone
            \<or> (\<exists>f. map_of fd k = Some f \<and> value_attr f = Some PNone))"
  then show "get_field_value s k = PNone"
    using get_field_value_missing(2-4) [of s fd k] by blast
next
  assume "fields_attr s = None \<or> fields_attr s = Some []"
  then show "well_typed s" by (rule well_typed_no_fields)
qed

lemma example_well_typed: "well_typed example_struct"
  by (simp add: well_typed_def example_struct_def get_field_value_def uint_ok_def ufix_ok_def
      status_ok_def)

theorem tolerant_decoding_witness:
  "\<exists>r. parse_proposal_result example_pylib example_result (Some 4) = Some r
     \<and> noVotes r = 0 \<and> endDate r = 0 \<and> parkId r = [] \<and> description r = [] \<and> creator r = []
     \<and> proposal_status r = lit ''active''
     \<and> ndviBefore (environmentalData r) = 0 \<and> vegetationLossPercent (environmentalData r) = 0
     \<and> children (demographics r) = 0 \<and> totalAffectedPopulation (demographics r) = 0"
proof -
  have s: "proposal_struct_of example_result = example_struct"
    by (simp add: proposal_struct_of_def example_result_def)
  have h: "truthy example_result \<and> value_attr example_result \<noteq> Some PNone
      \<and> truthy (proposal_struct_of example_result)
      \<and> well_typed (proposal_struct_of example_result)
      \<and> (Some (4::int) = None \<longrightarrow> uint_ok (get_field_value (proposal_struct_of example_result) ''id''))"
    unfolding s using example_well_typed
    by (simp add: example_result_def example_struct_def)
  note A = tolerant_decoding [of example_result "Some 4" example_pylib PNone "''x''" "[]"]
  from A h obtain r where r: "parse_proposal_result example_pylib example_result (Some 4) = Some r"
    "zero_defaults (proposal_struct_of example_result) r"
    by blast
  have "noVotes r = 0 \<and> endDate r = 0 \<and> parkId r = [] \<and> description r = [] \<and> creator r = []
     \<and> proposal_status r = lit ''active''
     \<and> ndviBefore (environmentalData r) = 0 \<and> vegetationLossPercent (environmentalData r) = 0
     \<and> children (demographics r) = 0 \<and> totalAffectedPopulation (demographics r) = 0"
    using r(2) unfolding s
    by (simp add: zero_defaults_def example_struct_def get_field_value_def Let_def)
  with r(1) show ?thesis by blast
qed

lemma parse_struct_id: "parse_struct L s (Some pid) = Inr r \<Longrightarrow> proposal_id r = pid"
  by (auto simp: parse_struct_def ebind_eq_Inr Let_def)

lemma get_field_value_cong:
  "map_of fd' k = map_of fd k \<Longrightarrow>
   get_field_value (PObj v (Some fd') rw t str) k = get_field_value (PObj v (Some fd) rw t str) k"
  by (simp add: get_field_value_def)

lemma parse_struct_ignores_id:
  assumes "\<forall>k. k \<noteq> ''id'' \<longrightarrow> map_of fd' k = map_of fd k"
  shows "parse_struct L (PObj v (Some fd') rw t str) (Some pid)
       = parse_struct L (PObj v (Some fd) rw t str) (Some pid)"
proof -
  have g: "k \<noteq> ''id'' \<Longrightarrow> get_field_value (PObj v (Some fd') rw t str) k
           = get_field_value (PObj v (Some fd) rw t str) k" for k
    using assms by (intro get_field_value_cong) blast
  show ?thesis by (simp add: parse_struct_def g)
qed

text \<open>
  C6. When the caller supplies the id, the record that comes out has that id, and the
  outcome of decoding does not depend on the struct's own \<open>id\<close> field at all, for a bare
  struct and for one inside an optional. A struct whose fields are well typed apart
  from an \<open>id\<close> that holds the type identifier decodes into a record with the caller's
  id. Without the caller's id the same struct gives \<open>None\<close>: the identifier is not a
  number.
\<close>

theorem id_override:
  "(parse_proposal_result L result (Some pid) = Some r \<longrightarrow> proposal_id r = pid)
   \<and> ((\<forall>k. k \<noteq> ''id'' \<longrightarrow> map_of fd' k = map_of fd k)
      \<longrightarrow> parse_proposal_result L (PObj None (Some fd') rw t str) (Some pid)
          = parse_proposal_result L (PObj None (Some fd) rw t str) (Some pid))
   \<and> ((\<forall>k. k \<noteq> ''id'' \<longrightarrow> map_of fd' k = map_of fd k)
      \<longrightarrow> parse_proposal_result L (PObj (Some (PObj None (Some fd') rw t str)) f2 rw2 t2 str2) (Some pid)
          = parse_proposal_result L (PObj (Some (PObj None (Some fd) rw t str)) f2 rw2 t2 str2) (Some pid))
   \<and> (well_typed (PObj None (Some fd) rw True str)
      \<longrightarrow> (\<exists>r'. parse_proposal_result L
                  (PObj None (Some ((''id'', PStr (lit ''A.0x01.CommunityVoting.Proposal'')) # fd))
                     rw True str) (Some pid) = Some r'
              \<and> proposal_id r' = pid))
   \<and> (int_of_str L (lit ''A.0x01.CommunityVoting.Proposal'') = None
      \<longrightarrow> parse_proposal_result L
            (PObj None (Some ((''id'', PStr (lit ''A.0x01.CommunityVoting.Proposal'')) # fd))
               rw True str) None = None)"
proof (intro conjI impI)
  assume "parse_proposal_result L result (Some pid) = Some r"
  then have "parse_struct L (proposal_struct_of result) (Some pid) = Inr r"
    by (auto simp: parse_proposal_result_def Let_def split: if_splits sum.splits)
  then show "proposal_id r = pid" by (rule parse_struct_id)
next
  assume a: "\<forall>k. k \<noteq> ''id'' \<longrightarrow> map_of fd' k = map_of fd k"
  show "parse_proposal_result L (PObj None (Some fd') rw t str) (Some pid)
          = parse_proposal_result L (PObj None (Some fd) rw t str) (Some pid)"
    using parse_struct_ignores_id [OF a, of L None rw t str pid]
    by (cases t) (simp_all add: parse_proposal_result_def proposal_struct_of_def)
next
  assume a: "\<forall>k. k \<noteq> ''id'' \<longrightarrow> map_of fd' k = map_of fd k"
  show "parse_proposal_result L (PObj (Some (PObj None (Some fd') rw t str)) f2 rw2 t2 str2) (Some pid)
          = parse_proposal_result L (PObj (Some (PObj None (Some fd) rw t str)) f2 rw2 t2 str2) (Some pid)"
    using parse_struct_ignores_id [OF a, of L None rw t str pid]
    by (cases t) (simp_all add: parse_proposal_result_def proposal_struct_of_def)
next
  assume wt: "well_typed (PObj None (Some fd) rw True str)"
  let ?s = "PObj None (Some ((''id'', PStr (lit ''A.0x01.CommunityVoting.Proposal'')) # fd)) rw True str"
  have g: "k \<noteq> ''id'' \<Longrightarrow> get_field_value ?s k = get_field_value (PObj None (Some fd) rw True str) k" for k
    by (intro get_field_value_cong) simp
  have "well_typed ?s"
    using wt unfolding well_typed_def by (simp add: g)
  then obtain r' where r': "parse_struct L ?s (Some pid) = Inr r'" "proposal_id r' = pid"
    using parse_struct_ok [of ?s "Some pid" L] by auto
  have "parse_proposal_result L ?s (Some pid) = Some r'"
    using r'(1) by (simp add: parse_proposal_result_def proposal_struct_of_def)
  with r'(2) show "\<exists>r'. parse_proposal_result L ?s (Some pid) = Some r' \<and> proposal_id r' = pid"
    by blast
next
  assume a: "int_of_str L (lit ''A.0x01.CommunityVoting.Proposal'') = None"
  let ?s = "PObj None (Some ((''id'', PStr (lit ''A.0x01.CommunityVoting.Proposal'')) # fd)) rw True str"
  have "get_field_value ?s ''id'' = PStr (lit ''A.0x01.CommunityVoting.Proposal'')"
    by (simp add: get_field_value_def)
  then have "parse_struct L ?s None = Inl ValueError"
    using a by (simp add: parse_struct_def uint64_to_int_def ebind_def)
  then show "parse_proposal_result L ?s None = None"
    by (simp add: parse_proposal_result_def proposal_struct_of_def)
qed

theorem id_override_witness:
  "(\<exists>r. parse_proposal_result example_pylib example_result (Some 4) = Some r \<and> proposal_id r = 4)
   \<and> (\<exists>r. parse_proposal_result example_pylib example_struct (Some 4) = Some r \<and> proposal_id r = 4)
   \<and> parse_proposal_result example_pylib example_struct None = None"
proof -
  let ?fd = "[(''parkName'', PObj (Some (PStr (lit ''Rock Creek Park''))) None False True []),
              (''yesVotes'', PObj (Some (PInt 3)) None False True [])]"
  note A = id_override [of example_pylib example_result 4 _ ?fd ?fd False True "[]" None False True "[]"]
  have wt: "well_typed (PObj None (Some ?fd) False True [])"
    by (simp add: well_typed_def get_field_value_def uint_ok_def ufix_ok_def status_ok_def)
  have s: "example_struct =
      PObj None (Some ((''id'', PStr (lit ''A.0x01.CommunityVoting.Proposal'')) # ?fd)) False True []"
    by (simp add: example_struct_def)
  from A wt obtain r where r: "parse_proposal_result example_pylib example_struct (Some 4) = Some r"
    "proposal_id r = 4"
    unfolding s by blast
  have n: "int_of_str example_pylib (lit ''A.0x01.CommunityVoting.Proposal'') = None"
    by (simp add: example_pylib_def)
  from A n have r3: "parse_proposal_result example_pylib example_struct None = None"
    unfolding s by blast
  have "parse_proposal_result example_pylib example_result (Some 4)
      = parse_proposal_result example_pylib example_struct (Some 4)"
    by (simp add: parse_proposal_result_def proposal_struct_of_def example_result_def
        example_struct_def)
  with r r3 show ?thesis by auto
qed

section \<open>Configuration\<close>

text \<open>
  C9. Without a private key, creating a proposal fails closed: the service has no
  signer and the call returns the not-connected or the not-configured result with
  nothing sent. Closing does not: the closer builds its signer without looking at the
  key, the constructor raises, and the script ends with that exception instead of a
  configuration error.
\<close>

theorem closer_without_key_crashes:
  "closer_main (InMemorySigner from_key) None L D E t ids = Crashed (Py TypeError)
   \<and> signer (init_service (InMemorySigner from_key) sdk_available None addr url) = None
   \<and> (create_proposal_on_blockchain L D (init_service (InMemorySigner from_key) sdk_available None addr url)
         c now0 now proposal_data = (NotConnected, [])
       \<or> create_proposal_on_blockchain L D (init_service (InMemorySigner from_key) sdk_available None addr url)
         c now0 now proposal_data = (NotConfigured, []))"
  by (simp add: closer_main_def ProposalCloser_init_def InMemorySigner_def init_service_def
      create_proposal_on_blockchain_def)

end
